theory Spec2Isabelle
  imports Main "HOL-Library.Sublist"
begin

section \<open>Python string operations used by the handlers\<close>

text \<open>
  Python strings are modelled as \<open>string\<close>; a \<open>char\<close> stands for a code point below
  256. \<open>isspace\<close> is \<open>str.isspace\<close> on one such code point and \<open>lower_char\<close> is
  \<open>str.lower\<close> on it (ASCII and Latin-1 capital letters move up by 32).
\<close>

definition isspace :: "char \<Rightarrow> bool" where
  "isspace c =
     (let n = (of_char c :: nat)
      in (9 \<le> n \<and> n \<le> 13) \<or> (28 \<le> n \<and> n \<le> 32) \<or> n = 133 \<or> n = 160)"

definition strip :: "string \<Rightarrow> string" where
  "strip s = rev (dropWhile isspace (rev (dropWhile isspace s)))"

definition lower_char :: "char \<Rightarrow> char" where
  "lower_char c =
     (let n = (of_char c :: nat)
      in if (65 \<le> n \<and> n \<le> 90) \<or> (192 \<le> n \<and> n \<le> 222 \<and> n \<noteq> 215)
         then char_of (n + 32) else c)"

definition lower :: "string \<Rightarrow> string" where
  "lower s = map lower_char s"

definition startswith :: "string \<Rightarrow> string \<Rightarrow> bool" where
  "startswith s p = prefix p s"

text \<open>\<open>s.split(d)\<close> for a one-character separator: it never returns the empty list.\<close>

fun split :: "char \<Rightarrow> string \<Rightarrow> string list" where
  "split d [] = [[]]"
| "split d (c # cs) =
     (if c = d then [] # split d cs
      else (case split d cs of [] \<Rightarrow> [[c]] | w # ws \<Rightarrow> (c # w) # ws))"

text \<open>\<open>sep.join(xs)\<close> on a list of strings.\<close>

fun join :: "string \<Rightarrow> string list \<Rightarrow> string" where
  "join sep [] = []"
| "join sep [x] = x"
| "join sep (x # y # ys) = x @ sep @ join sep (y # ys)"

text \<open>The slice \<open>s[a:-b]\<close> for \<open>a \<ge> 0\<close> and \<open>b > 0\<close>.\<close>

definition slice_from_to_end :: "nat \<Rightarrow> nat \<Rightarrow> string \<Rightarrow> string" where
  "slice_from_to_end a b s = drop a (take (length s - b) s)"

section \<open>The five tables\<close>

text \<open>
  The schema is the one \<open>init_database\<close> of app.py creates. A table is the list of its
  rows in insertion order; every table has an AUTO_INCREMENT counter holding the id the
  next inserted row receives (\<open>cursor.lastrowid\<close> after the insert). Timestamps are
  seconds. A text column that a handler fills from arbitrary JSON holds a \<open>sql_value\<close>.
\<close>

datatype sql_value = SqlNull | SqlText string | SqlInt int

record user_row =
  user_id :: nat
  user_name :: string
  user_email :: string
  user_password_hash :: string
  user_created_at :: nat

record ingredient_row =
  ing_id :: nat
  ing_user_id :: nat
  ing_ingredient :: string
  ing_added_at :: nat

record recipe_row =
  rec_id :: nat
  rec_name :: sql_value
  rec_description :: sql_value
  rec_ingredients :: string
  rec_instructions :: string
  rec_cook_time :: sql_value
  rec_difficulty :: sql_value
  rec_created_at :: nat

record favorite_row =
  fav_id :: nat
  fav_user_id :: nat
  fav_recipe_id :: nat
  fav_created_at :: nat

record history_row =
  hist_id :: nat
  hist_user_id :: nat
  hist_ingredients :: string
  hist_recipes_found :: nat
  hist_search_time :: nat

record db =
  users :: "user_row list"
  user_ingredients :: "ingredient_row list"
  recipes :: "recipe_row list"
  user_favorites :: "favorite_row list"
  search_history :: "history_row list"
  next_user_id :: nat
  next_ingredient_id :: nat
  next_recipe_id :: nat
  next_favorite_id :: nat
  next_history_id :: nat

definition init_database :: db where
  "init_database =
     \<lparr>users = [], user_ingredients = [], recipes = [], user_favorites = [],
      search_history = [], next_user_id = 1, next_ingredient_id = 1, next_recipe_id = 1,
      next_favorite_id = 1, next_history_id = 1\<rparr>"

text \<open>\<open>cursor.fetchone()\<close> on a SELECT: the first matching row, or None.\<close>

definition fetchone :: "('r \<Rightarrow> bool) \<Rightarrow> 'r list \<Rightarrow> 'r option" where
  "fetchone p rows = find p rows"

section \<open>Search history listing\<close>

text \<open>
  \<open>SELECT ingredients, recipes_found, search_time FROM search_history WHERE user_id = %s
  ORDER BY search_time DESC LIMIT %s\<close> (\<open>SearchHistory.get_user_history\<close>, and the same
  query with \<open>LIMIT 20\<close> inlined in app.py). Rows with equal timestamps keep their
  insertion order.
\<close>

definition select_history :: "nat \<Rightarrow> nat \<Rightarrow> db \<Rightarrow> history_row list" where
  "select_history uid limit s =
     take limit
       (sort_key (\<lambda>r. - int (hist_search_time r))
          (filter (\<lambda>r. hist_user_id r = uid) (search_history s)))"

definition get_user_history :: "nat \<Rightarrow> db \<Rightarrow> (string \<times> nat \<times> nat) list" where
  "get_user_history uid s =
     map (\<lambda>r. (hist_ingredients r, hist_recipes_found r, hist_search_time r))
       (select_history uid 20 s)"

section \<open>Responses\<close>

text \<open>
  A handler returns \<open>(jsonify(body), status)\<close>. The text of an exception interpolated into
  an error message is left out: only the fixed part of the message is kept. An exception
  that no handler catches reaches Flask, which answers 500. \<open>json\<close> is a value parsed
  from JSON text; its numbers are integers here, since no handler computes with them.
\<close>

datatype json =
    JNull
  | JBool bool
  | JNum int
  | JStr string
  | JArr "json list"
  | JObj "(string \<times> json) list"

datatype body =
    Error string
  | Message string
  | Auth string string nat string string
  | IngredientAdded string string
  | Recipes "json list" nat string
  | History "(string \<times> nat \<times> nat) list"

type_synonym response = "body \<times> nat"

definition internal_server_error :: response where
  "internal_server_error = (Error ''Internal server error'', 500)"

section \<open>Configuration and libraries\<close>

text \<open>
  app.py fixes its secret in the source; app_improved.py reads \<open>Config\<close>, whose values
  come from the environment (with defaults), so they are a parameter there.
\<close>

definition SECRET_KEY :: string where
  "SECRET_KEY = ''your-secret-key-change-this''"

record config =
  cfg_SECRET_KEY :: string
  cfg_JWT_EXPIRATION_DAYS :: nat

definition timedelta_days :: "nat \<Rightarrow> nat" where
  "timedelta_days d = d * 86400"

text \<open>
  PyJWT and werkzeug are libraries, not code of this repository: they are parameters.
  \<open>enc payload key\<close> is \<open>jwt.encode(payload, key, algorithm='HS256')\<close>;
  \<open>dec token key now\<close> is \<open>jwt.decode(token, key, algorithms=['HS256'])\<close> run at time
  \<open>now\<close>, which raises or returns the payload. A payload is the dict of its claims, here
  an association list. \<open>gen salt password\<close> is \<open>generate_password_hash\<close> with the salt it
  draws, \<open>chk hash password\<close> is \<open>check_password_hash\<close>.
\<close>

datatype jwt_error = ExpiredSignatureError | InvalidTokenError

type_synonym payload = "(string \<times> nat) list"
type_synonym jwt_encoder = "payload \<Rightarrow> string \<Rightarrow> string"
type_synonym jwt_decoder = "string \<Rightarrow> string \<Rightarrow> nat \<Rightarrow> jwt_error + payload"
type_synonym hash_generator = "string \<Rightarrow> string \<Rightarrow> string"
type_synonym hash_checker = "string \<Rightarrow> string \<Rightarrow> bool"

text \<open>
  What the handlers rely on: a token decodes, under the key that signed it and before its
  \<open>exp\<close> claim, to the payload it was made from; a hash checks against its password.
\<close>

definition pyjwt_round_trip :: "jwt_encoder \<Rightarrow> jwt_decoder \<Rightarrow> bool" where
  "pyjwt_round_trip enc dec =
     (\<forall>uid e key now. now < e \<longrightarrow>
        dec (enc [(''user_id'', uid), (''exp'', e)] key) key now
          = Inr [(''user_id'', uid), (''exp'', e)])"

definition werkzeug_round_trip :: "hash_generator \<Rightarrow> hash_checker \<Rightarrow> bool" where
  "werkzeug_round_trip gen chk = (\<forall>salt pw. chk (gen salt pw) pw)"

section \<open>The auth decorator\<close>

text \<open>
  \<open>token_required(f)\<close> of app.py. \<open>auth\<close> is \<open>request.headers.get('Authorization')\<close>.
  The bare \<open>except\<close> also catches the KeyError of a payload without \<open>user_id\<close>.
\<close>

definition token_required ::
  "jwt_decoder \<Rightarrow> nat \<Rightarrow> (nat \<Rightarrow> db \<Rightarrow> response \<times> db) \<Rightarrow> string option \<Rightarrow> db \<Rightarrow> response \<times> db"
where
  "token_required dec now f auth s =
     (case auth of
        None \<Rightarrow> ((Message ''Token is missing'', 401), s)
      | Some token \<Rightarrow>
          if token = [] then ((Message ''Token is missing'', 401), s)
          else
            (let token' = (if startswith token ''Bearer '' then drop 7 token else token)
             in case dec token' SECRET_KEY now of
                  Inl _ \<Rightarrow> ((Message ''Token is invalid'', 401), s)
                | Inr data \<Rightarrow>
                    (case map_of data ''user_id'' of
                       None \<Rightarrow> ((Message ''Token is invalid'', 401), s)
                     | Some current_user_id \<Rightarrow> f current_user_id s)))"

text \<open>
  \<open>token_required(f)\<close> of app_improved.py: the two jwt exceptions are caught, a KeyError
  is not.
\<close>

definition token_required_improved ::
  "config \<Rightarrow> jwt_decoder \<Rightarrow> nat \<Rightarrow> (nat \<Rightarrow> db \<Rightarrow> response \<times> db) \<Rightarrow> string option \<Rightarrow> db
     \<Rightarrow> response \<times> db"
where
  "token_required_improved cfg dec now f auth s =
     (case auth of
        None \<Rightarrow> ((Error ''Authentication token is missing'', 401), s)
      | Some token \<Rightarrow>
          if token = [] then ((Error ''Authentication token is missing'', 401), s)
          else
            (let token' = (if startswith token ''Bearer '' then drop 7 token else token)
             in case dec token' (cfg_SECRET_KEY cfg) now of
                  Inl ExpiredSignatureError \<Rightarrow> ((Error ''Token has expired'', 401), s)
                | Inl InvalidTokenError \<Rightarrow> ((Error ''Token is invalid'', 401), s)
                | Inr data \<Rightarrow>
                    (case map_of data ''user_id'' of
                       None \<Rightarrow> (internal_server_error, s)
                     | Some current_user_id \<Rightarrow> f current_user_id s)))"

section \<open>Regular expression of the email check\<close>

text \<open>
  \<open>re.match(r'^[a-zA-Z0-9._%+-]+@[a-zA-Z0-9.-]+\.[a-zA-Z]{2,}$', email)\<close>. The pattern
  is a sequence of items, each a literal character or a character class repeated at least
  \<open>n\<close> times; \<open>re_match\<close> tries every number of repetitions, as backtracking does, from the
  start of the string, and \<open>$\<close> accepts the end of the string or a final newline.
\<close>

datatype item = Literal char | AtLeast nat "char \<Rightarrow> bool"

fun re_match :: "item list \<Rightarrow> string \<Rightarrow> bool" where
  "re_match [] s = (s = [] \<or> s = [CHR 0x0A])"
| "re_match (Literal c # items) s =
     (case s of [] \<Rightarrow> False | x # xs \<Rightarrow> x = c \<and> re_match items xs)"
| "re_match (AtLeast n cls # items) s =
     list_ex (\<lambda>k. re_match items (drop k s)) [n ..< Suc (length (takeWhile cls s))]"

definition ascii_letter :: "char \<Rightarrow> bool" where
  "ascii_letter c =
     (let n = (of_char c :: nat) in (97 \<le> n \<and> n \<le> 122) \<or> (65 \<le> n \<and> n \<le> 90))"

definition ascii_digit :: "char \<Rightarrow> bool" where
  "ascii_digit c = (let n = (of_char c :: nat) in 48 \<le> n \<and> n \<le> 57)"

definition local_part_char :: "char \<Rightarrow> bool" where
  "local_part_char c = (ascii_letter c \<or> ascii_digit c \<or> c \<in> set ''._%+-'')"

definition domain_char :: "char \<Rightarrow> bool" where
  "domain_char c = (ascii_letter c \<or> ascii_digit c \<or> c \<in> set ''.-'')"

definition email_pattern :: "item list" where
  "email_pattern =
     [AtLeast 1 local_part_char, Literal CHR ''@'', AtLeast 1 domain_char,
      Literal CHR ''.'', AtLeast 2 ascii_letter]"

section \<open>Registration and login\<close>

text \<open>
  \<open>data = request.get_json()\<close>: None when there is no JSON body, else the dict; a field
  is absent or a string. \<open>db_up\<close> tells whether \<open>get_db_connection()\<close> returns a
  connection during the request; \<open>now\<close> is the clock and \<open>salt\<close> the salt the hash draws.
\<close>

record register_request =
  req_name :: "string option"
  req_email :: "string option"
  req_password :: "string option"

record login_request =
  login_email :: "string option"
  login_password :: "string option"

definition insert_user :: "string \<Rightarrow> string \<Rightarrow> string \<Rightarrow> nat \<Rightarrow> db \<Rightarrow> nat \<times> db" where
  "insert_user name email hash now s =
     (next_user_id s,
      s\<lparr>users := users s @
           [\<lparr>user_id = next_user_id s, user_name = name, user_email = email,
             user_password_hash = hash, user_created_at = now\<rparr>],
        next_user_id := Suc (next_user_id s)\<rparr>)"

text \<open>\<open>register()\<close> of app.py.\<close>

definition register ::
  "hash_generator \<Rightarrow> jwt_encoder \<Rightarrow> bool \<Rightarrow> nat \<Rightarrow> string \<Rightarrow> register_request option \<Rightarrow> db
     \<Rightarrow> response \<times> db"
where
  "register gen enc db_up now salt data s =
     (case data of
        None \<Rightarrow> ((Error ''Name, email and password are required'', 400), s)
      | Some d \<Rightarrow>
          (case (req_name d, req_email d, req_password d) of
             (Some name, Some email, Some password) \<Rightarrow>
               if name = [] \<or> email = [] \<or> password = []
               then ((Error ''Name, email and password are required'', 400), s)
               else if \<not> re_match email_pattern email
               then ((Error ''Invalid email format'', 400), s)
               else if length password < 6
               then ((Error ''Password must be at least 6 characters long'', 400), s)
               else if \<not> db_up
               then ((Error ''Database connection failed'', 500), s)
               else if fetchone (\<lambda>u. user_email u = email) (users s) \<noteq> None
               then ((Error ''Email already registered'', 409), s)
               else
                 (let password_hash = gen salt password;
                      (uid, s') = insert_user name email password_hash now s;
                      token = enc [(''user_id'', uid), (''exp'', now + timedelta_days 7)]
                                SECRET_KEY
                  in ((Auth ''User registered successfully'' token uid name email, 201), s'))
           | _ \<Rightarrow> ((Error ''Name, email and password are required'', 400), s)))"

text \<open>\<open>login()\<close> of app.py.\<close>

definition login ::
  "hash_checker \<Rightarrow> jwt_encoder \<Rightarrow> bool \<Rightarrow> nat \<Rightarrow> login_request option \<Rightarrow> db \<Rightarrow> response \<times> db"
where
  "login chk enc db_up now data s =
     (case data of
        None \<Rightarrow> ((Error ''Email and password are required'', 400), s)
      | Some d \<Rightarrow>
          (case (login_email d, login_password d) of
             (Some email, Some password) \<Rightarrow>
               if email = [] \<or> password = []
               then ((Error ''Email and password are required'', 400), s)
               else if \<not> db_up
               then ((Error ''Database connection failed'', 500), s)
               else
                 (case fetchone (\<lambda>u. user_email u = email) (users s) of
                    None \<Rightarrow> ((Error ''Invalid email or password'', 401), s)
                  | Some user \<Rightarrow>
                      if \<not> chk (user_password_hash user) password
                      then ((Error ''Invalid email or password'', 401), s)
                      else
                        (let token = enc [(''user_id'', user_id user),
                                          (''exp'', now + timedelta_days 7)] SECRET_KEY
                         in ((Auth ''Login successful'' token (user_id user) (user_name user)
                                (user_email user), 200), s)))
           | _ \<Rightarrow> ((Error ''Email and password are required'', 400), s)))"

text \<open>
  app_improved.py. \<open>register()\<close> calls \<open>validate_email\<close>, a name that no module of the
  repository defines or imports: looking it up raises NameError, which the handler's
  \<open>except Exception\<close> turns into a 500. The rest of the handler is modelled as written.
\<close>

datatype py_error = NameError | TypeError | KeyError | IndexError | ValueError

definition validate_email :: "py_error + (string \<Rightarrow> bool)" where
  "validate_email = Inl NameError"

definition validate_password :: "string \<Rightarrow> bool" where
  "validate_password password = (length password \<ge> 6)"

text \<open>
  \<open>Database.execute_query\<close> opens its own connection: with no connection it returns None
  and changes nothing. \<open>User.email_exists\<close>, \<open>User.create_user\<close> and
  \<open>User.get_user_by_email\<close> go through it.
\<close>

definition email_exists :: "bool \<Rightarrow> string \<Rightarrow> db \<Rightarrow> bool" where
  "email_exists db_up email s =
     (db_up \<and> fetchone (\<lambda>u. user_email u = email) (users s) \<noteq> None)"

definition create_user :: "bool \<Rightarrow> string \<Rightarrow> string \<Rightarrow> string \<Rightarrow> nat \<Rightarrow> db \<Rightarrow> nat option \<times> db" where
  "create_user db_up name email hash now s =
     (if db_up then (let (uid, s') = insert_user name email hash now s in (Some uid, s'))
      else (None, s))"

definition get_user_by_email :: "bool \<Rightarrow> string \<Rightarrow> db \<Rightarrow> user_row option" where
  "get_user_by_email db_up email s =
     (if db_up then fetchone (\<lambda>u. user_email u = email) (users s) else None)"

definition register_improved ::
  "config \<Rightarrow> hash_generator \<Rightarrow> jwt_encoder \<Rightarrow> bool \<Rightarrow> nat \<Rightarrow> string \<Rightarrow> register_request option
     \<Rightarrow> db \<Rightarrow> response \<times> db"
where
  "register_improved cfg gen enc db_up now salt data s =
     (case data of
        None \<Rightarrow> ((Error ''Name, email and password are required'', 400), s)
      | Some d \<Rightarrow>
          (case (req_name d, req_email d, req_password d) of
             (Some name, Some email, Some password) \<Rightarrow>
               (case validate_email of
                  Inl _ \<Rightarrow> ((Error ''Registration failed'', 500), s)
                | Inr valid \<Rightarrow>
                    if \<not> valid email
                    then ((Error ''Invalid email format'', 400), s)
                    else if \<not> validate_password password
                    then ((Error ''Password must be at least 6 characters long'', 400), s)
                    else if email_exists db_up email s
                    then ((Error ''Email already registered'', 409), s)
                    else
                      (case create_user db_up name email (gen salt password) now s of
                         (None, s') \<Rightarrow> ((Error ''Failed to create user'', 500), s')
                       | (Some uid, s') \<Rightarrow>
                           if uid = 0 then ((Error ''Failed to create user'', 500), s')
                           else
                             (let token =
                                    enc [(''user_id'', uid),
                                         (''exp'', now + timedelta_days
                                                     (cfg_JWT_EXPIRATION_DAYS cfg))]
                                      (cfg_SECRET_KEY cfg)
                              in ((Auth ''User registered successfully'' token uid name email,
                                   201), s'))))
           | _ \<Rightarrow> ((Error ''Name, email and password are required'', 400), s)))"

definition login_improved ::
  "config \<Rightarrow> hash_checker \<Rightarrow> jwt_encoder \<Rightarrow> bool \<Rightarrow> nat \<Rightarrow> login_request option \<Rightarrow> db
     \<Rightarrow> response \<times> db"
where
  "login_improved cfg chk enc db_up now data s =
     (case data of
        None \<Rightarrow> ((Error ''Email and password are required'', 400), s)
      | Some d \<Rightarrow>
          (case (login_email d, login_password d) of
             (Some email, Some password) \<Rightarrow>
               (case get_user_by_email db_up email s of
                  None \<Rightarrow> ((Error ''Invalid email or password'', 401), s)
                | Some user \<Rightarrow>
                    if \<not> chk (user_password_hash user) password
                    then ((Error ''Invalid email or password'', 401), s)
                    else
                      (let token =
                             enc [(''user_id'', user_id user),
                                  (''exp'', now + timedelta_days (cfg_JWT_EXPIRATION_DAYS cfg))]
                               (cfg_SECRET_KEY cfg)
                       in ((Auth ''Login successful'' token (user_id user) (user_name user)
                              (user_email user), 200), s)))
           | _ \<Rightarrow> ((Error ''Email and password are required'', 400), s)))"

section \<open>Pantry ingredients\<close>

text \<open>
  The body of \<open>POST /api/ingredients\<close>: None when there is no JSON body (\<open>data.get\<close>
  then raises AttributeError), else the dict with its \<open>ingredient\<close> field, absent or a
  string. SQL \<open>=\<close> on a text column is modelled as equality of the strings.
\<close>

record ingredient_request =
  req_ingredient :: "string option"

definition insert_ingredient :: "nat \<Rightarrow> string \<Rightarrow> nat \<Rightarrow> db \<Rightarrow> nat \<times> db" where
  "insert_ingredient uid ingredient now s =
     (next_ingredient_id s,
      s\<lparr>user_ingredients := user_ingredients s @
           [\<lparr>ing_id = next_ingredient_id s, ing_user_id = uid, ing_ingredient = ingredient,
             ing_added_at = now\<rparr>],
        next_ingredient_id := Suc (next_ingredient_id s)\<rparr>)"

definition ingredient_matches :: "nat \<Rightarrow> string \<Rightarrow> ingredient_row \<Rightarrow> bool" where
  "ingredient_matches uid ingredient r = (ing_user_id r = uid \<and> ing_ingredient r = ingredient)"

text \<open>
  \<open>DELETE FROM user_ingredients WHERE user_id = %s AND ingredient = %s\<close>: the number of
  rows deleted (\<open>cursor.rowcount\<close>) and the new state.
\<close>

definition delete_ingredient :: "nat \<Rightarrow> string \<Rightarrow> db \<Rightarrow> nat \<times> db" where
  "delete_ingredient uid ingredient s =
     (length (filter (ingredient_matches uid ingredient) (user_ingredients s)),
      s\<lparr>user_ingredients :=
           filter (\<lambda>r. \<not> ingredient_matches uid ingredient r) (user_ingredients s)\<rparr>)"

text \<open>\<open>add_ingredient(current_user_id)\<close> of app.py.\<close>

definition add_ingredient ::
  "bool \<Rightarrow> nat \<Rightarrow> ingredient_request option \<Rightarrow> nat \<Rightarrow> db \<Rightarrow> response \<times> db"
where
  "add_ingredient db_up now data current_user_id s =
     (case data of
        None \<Rightarrow> (internal_server_error, s)
      | Some d \<Rightarrow>
          (let ingredient = lower (strip (case req_ingredient d of None \<Rightarrow> [] | Some x \<Rightarrow> x))
           in if ingredient = []
              then ((Error ''Ingredient name is required'', 400), s)
              else if \<not> db_up
              then ((Error ''Database connection failed'', 500), s)
              else if fetchone (ingredient_matches current_user_id ingredient)
                        (user_ingredients s) \<noteq> None
              then ((Error ''Ingredient already added'', 409), s)
              else
                (let (rid, s') = insert_ingredient current_user_id ingredient now s
                 in ((IngredientAdded ''Ingredient added successfully'' ingredient, 201), s'))))"

text \<open>
  \<open>remove_ingredient(current_user_id, ingredient)\<close> of app.py; \<open>ingredient\<close> is the path
  segment of the URL.
\<close>

definition remove_ingredient :: "bool \<Rightarrow> string \<Rightarrow> nat \<Rightarrow> db \<Rightarrow> response \<times> db" where
  "remove_ingredient db_up ingredient current_user_id s =
     (if \<not> db_up then ((Error ''Database connection failed'', 500), s)
      else
        (let (rowcount, s') = delete_ingredient current_user_id (lower ingredient) s
         in if rowcount = 0 then ((Error ''Ingredient not found'', 404), s')
            else ((Message ''Ingredient removed successfully'', 200), s')))"

text \<open>
  The \<open>Ingredient\<close> model of models.py. Each method lower-cases the name and runs one
  query through \<open>Database.execute_query\<close>, whose value without \<open>fetch\<close> is
  \<open>cursor.lastrowid\<close>: the id of the row an INSERT created, and 0 after a DELETE, which
  creates no row.
\<close>

definition ingredient_exists :: "bool \<Rightarrow> nat \<Rightarrow> string \<Rightarrow> db \<Rightarrow> bool" where
  "ingredient_exists db_up uid ingredient s =
     (db_up \<and> fetchone (ingredient_matches uid (lower ingredient)) (user_ingredients s) \<noteq> None)"

definition Ingredient_add_ingredient ::
  "bool \<Rightarrow> nat \<Rightarrow> nat \<Rightarrow> string \<Rightarrow> db \<Rightarrow> nat option \<times> db"
where
  "Ingredient_add_ingredient db_up now uid ingredient s =
     (if db_up
      then (let (rid, s') = insert_ingredient uid (lower ingredient) now s in (Some rid, s'))
      else (None, s))"

definition Ingredient_remove_ingredient ::
  "bool \<Rightarrow> nat \<Rightarrow> string \<Rightarrow> db \<Rightarrow> nat option \<times> db"
where
  "Ingredient_remove_ingredient db_up uid ingredient s =
     (if db_up
      then (let (rowcount, s') = delete_ingredient uid (lower ingredient) s in (Some 0, s'))
      else (None, s))"

text \<open>Truth value of an \<open>execute_query\<close> result: None and 0 are false.\<close>

definition truthy :: "nat option \<Rightarrow> bool" where
  "truthy r = (case r of None \<Rightarrow> False | Some n \<Rightarrow> n \<noteq> 0)"

text \<open>\<open>add_ingredient\<close> and \<open>remove_ingredient\<close> of app_improved.py.\<close>

definition add_ingredient_improved ::
  "bool \<Rightarrow> nat \<Rightarrow> ingredient_request option \<Rightarrow> nat \<Rightarrow> db \<Rightarrow> response \<times> db"
where
  "add_ingredient_improved db_up now data current_user_id s =
     (case data of
        None \<Rightarrow> ((Error ''Failed to add ingredient'', 500), s)
      | Some d \<Rightarrow>
          (let ingredient = strip (case req_ingredient d of None \<Rightarrow> [] | Some x \<Rightarrow> x)
           in if ingredient = []
              then ((Error ''Ingredient name is required'', 400), s)
              else if ingredient_exists db_up current_user_id ingredient s
              then ((Error ''Ingredient already added'', 409), s)
              else
                (case Ingredient_add_ingredient db_up now current_user_id ingredient s of
                   (r, s') \<Rightarrow>
                     if truthy r
                     then ((IngredientAdded ''Ingredient added successfully''
                              (lower ingredient), 201), s')
                     else ((Error ''Failed to add ingredient'', 500), s'))))"

definition remove_ingredient_improved :: "bool \<Rightarrow> string \<Rightarrow> nat \<Rightarrow> db \<Rightarrow> response \<times> db" where
  "remove_ingredient_improved db_up ingredient current_user_id s =
     (case Ingredient_remove_ingredient db_up current_user_id ingredient s of
        (r, s') \<Rightarrow>
          if truthy r then ((Message ''Ingredient removed successfully'', 200), s')
          else ((Error ''Ingredient not found'', 404), s'))"

text \<open>
  \<open>get_user_ingredients\<close>: the names of the user's rows, newest first (rows added in the
  same second keep their insertion order). It is the pantry the list endpoint shows.
\<close>

definition get_user_ingredients :: "nat \<Rightarrow> db \<Rightarrow> string list" where
  "get_user_ingredients uid s =
     map ing_ingredient
       (sort_key (\<lambda>r. - int (ing_added_at r))
          (filter (\<lambda>r. ing_user_id r = uid) (user_ingredients s)))"

section \<open>Favorites\<close>

text \<open>
  The \<open>recipe\<close> object of \<open>POST /api/favorites\<close>: every field is absent or has the type
  the client sends (strings and lists of strings). The dict with no field is the empty
  dict, which Python takes as false.
\<close>

record recipe_data =
  rd_name :: "string option"
  rd_description :: "string option"
  rd_ingredients :: "string list option"
  rd_instructions :: "string list option"
  rd_cook_time :: "string option"
  rd_difficulty :: "string option"

record favorite_request =
  req_recipe :: "recipe_data option"

definition empty_dict :: "recipe_data \<Rightarrow> bool" where
  "empty_dict r =
     (rd_name r = None \<and> rd_description r = None \<and> rd_ingredients r = None \<and>
      rd_instructions r = None \<and> rd_cook_time r = None \<and> rd_difficulty r = None)"

definition get_or :: "'a option \<Rightarrow> 'a \<Rightarrow> 'a" where
  "get_or v d = (case v of None \<Rightarrow> d | Some x \<Rightarrow> x)"

definition insert_recipe ::
  "sql_value \<Rightarrow> sql_value \<Rightarrow> string \<Rightarrow> string \<Rightarrow> sql_value \<Rightarrow> sql_value \<Rightarrow> nat \<Rightarrow> db \<Rightarrow> nat \<times> db"
where
  "insert_recipe name description ingredients instructions cook_time difficulty now s =
     (next_recipe_id s,
      s\<lparr>recipes := recipes s @
           [\<lparr>rec_id = next_recipe_id s, rec_name = name, rec_description = description,
             rec_ingredients = ingredients, rec_instructions = instructions,
             rec_cook_time = cook_time, rec_difficulty = difficulty, rec_created_at = now\<rparr>],
        next_recipe_id := Suc (next_recipe_id s)\<rparr>)"

definition insert_favorite :: "nat \<Rightarrow> nat \<Rightarrow> nat \<Rightarrow> db \<Rightarrow> nat \<times> db" where
  "insert_favorite uid rid now s =
     (next_favorite_id s,
      s\<lparr>user_favorites := user_favorites s @
           [\<lparr>fav_id = next_favorite_id s, fav_user_id = uid, fav_recipe_id = rid,
             fav_created_at = now\<rparr>],
        next_favorite_id := Suc (next_favorite_id s)\<rparr>)"

definition favorite_matches :: "nat \<Rightarrow> nat \<Rightarrow> favorite_row \<Rightarrow> bool" where
  "favorite_matches uid rid f = (fav_user_id f = uid \<and> fav_recipe_id f = rid)"

text \<open>
  \<open>add_favorite(current_user_id)\<close> of app.py. The handler catches only the database's
  \<open>Error\<close>: the AttributeError of a missing body and the KeyError of a recipe without a
  name reach Flask. The 409 path returns before \<open>connection.commit()\<close>.
\<close>

definition add_favorite ::
  "bool \<Rightarrow> nat \<Rightarrow> favorite_request option \<Rightarrow> nat \<Rightarrow> db \<Rightarrow> response \<times> db"
where
  "add_favorite db_up now data current_user_id s =
     (case data of
        None \<Rightarrow> (internal_server_error, s)
      | Some d \<Rightarrow>
          (case req_recipe d of
             None \<Rightarrow> ((Error ''Recipe data is required'', 400), s)
           | Some rd \<Rightarrow>
               if empty_dict rd then ((Error ''Recipe data is required'', 400), s)
               else if \<not> db_up then ((Error ''Database connection failed'', 500), s)
               else
                 (case rd_name rd of
                    None \<Rightarrow> (internal_server_error, s)
                  | Some name \<Rightarrow>
                      (let (recipe_id, s1) =
                             (case fetchone (\<lambda>r. rec_name r = SqlText name) (recipes s) of
                                Some recipe \<Rightarrow> (rec_id recipe, s)
                              | None \<Rightarrow>
                                  insert_recipe (SqlText name)
                                    (SqlText (get_or (rd_description rd) []))
                                    (join '', '' (get_or (rd_ingredients rd) []))
                                    (join [CHR 0x0A] (get_or (rd_instructions rd) []))
                                    (SqlText (get_or (rd_cook_time rd) []))
                                    (SqlText (get_or (rd_difficulty rd) ''Medium''))
                                    now s)
                       in if fetchone (favorite_matches current_user_id recipe_id)
                               (user_favorites s1) \<noteq> None
                          then ((Error ''Recipe already in favorites'', 409), s)
                          else
                            (let (fid, s2) = insert_favorite current_user_id recipe_id now s1
                             in ((Message ''Recipe added to favorites'', 201), s2))))))"

text \<open>
  The \<open>Recipe\<close> and \<open>Favorite\<close> models of models.py. \<open>create_recipe\<close> is also called
  with values parsed from the completion API: \<open>to_sql\<close> is the driver's conversion of a
  parameter, which fails on a list or a dict; the \<open>name\<close> column is NOT NULL. A failed
  query is caught inside \<open>execute_query\<close>, which then returns None.
\<close>

fun to_sql :: "json \<Rightarrow> sql_value option" where
  "to_sql JNull = Some SqlNull"
| "to_sql (JBool b) = Some (SqlInt (if b then 1 else 0))"
| "to_sql (JNum n) = Some (SqlInt n)"
| "to_sql (JStr t) = Some (SqlText t)"
| "to_sql (JArr xs) = None"
| "to_sql (JObj kvs) = None"

definition create_recipe ::
  "bool \<Rightarrow> nat \<Rightarrow> json \<Rightarrow> json \<Rightarrow> string \<Rightarrow> string \<Rightarrow> json \<Rightarrow> json \<Rightarrow> db \<Rightarrow> nat option \<times> db"
where
  "create_recipe db_up now name description ingredients instructions cook_time difficulty s =
     (if \<not> db_up then (None, s)
      else
        (case (to_sql name, to_sql description, to_sql cook_time, to_sql difficulty) of
           (Some n, Some d, Some c, Some f) \<Rightarrow>
             if n = SqlNull then (None, s)
             else (let (rid, s') = insert_recipe n d ingredients instructions c f now s
                   in (Some rid, s'))
         | _ \<Rightarrow> (None, s)))"

definition get_recipe_by_name :: "bool \<Rightarrow> string \<Rightarrow> db \<Rightarrow> nat option" where
  "get_recipe_by_name db_up name s =
     (if db_up then map_option rec_id (fetchone (\<lambda>r. rec_name r = SqlText name) (recipes s))
      else None)"

definition is_favorite :: "bool \<Rightarrow> nat \<Rightarrow> nat \<Rightarrow> db \<Rightarrow> bool" where
  "is_favorite db_up uid rid s =
     (db_up \<and> fetchone (favorite_matches uid rid) (user_favorites s) \<noteq> None)"

definition Favorite_add_favorite :: "bool \<Rightarrow> nat \<Rightarrow> nat \<Rightarrow> nat \<Rightarrow> db \<Rightarrow> nat option \<times> db" where
  "Favorite_add_favorite db_up now uid rid s =
     (if db_up then (let (fid, s') = insert_favorite uid rid now s in (Some fid, s'))
      else (None, s))"

text \<open>\<open>add_favorite_recipe(current_user_id)\<close> of app_improved.py.\<close>

definition add_favorite_recipe ::
  "bool \<Rightarrow> nat \<Rightarrow> favorite_request option \<Rightarrow> nat \<Rightarrow> db \<Rightarrow> response \<times> db"
where
  "add_favorite_recipe db_up now data current_user_id s =
     (case data of
        None \<Rightarrow> ((Error ''Failed to add favorite'', 500), s)
      | Some d \<Rightarrow>
          (case req_recipe d of
             None \<Rightarrow> ((Error ''Recipe data is required'', 400), s)
           | Some rd \<Rightarrow>
               (case rd_name rd of
                  None \<Rightarrow> ((Error ''Recipe data is required'', 400), s)
                | Some name \<Rightarrow>
                    if name = [] then ((Error ''Recipe data is required'', 400), s)
                    else
                      (let (recipe_id, s1) =
                             (case get_recipe_by_name db_up name s of
                                Some rid \<Rightarrow> (Some rid, s)
                              | None \<Rightarrow>
                                  create_recipe db_up now (JStr name)
                                    (JStr (get_or (rd_description rd) []))
                                    (join '', '' (get_or (rd_ingredients rd) []))
                                    (join [CHR 0x0A] (get_or (rd_instructions rd) []))
                                    (JStr (get_or (rd_cook_time rd) []))
                                    (JStr (get_or (rd_difficulty rd) ''Medium''))
                                    s)
                       in case recipe_id of
                            None \<Rightarrow> ((Error ''Failed to create recipe'', 500), s1)
                          | Some rid \<Rightarrow>
                              if rid = 0
                              then ((Error ''Failed to create recipe'', 500), s1)
                              else if is_favorite db_up current_user_id rid s1
                              then ((Error ''Recipe already in favorites'', 409), s1)
                              else
                                (case Favorite_add_favorite db_up now current_user_id rid s1 of
                                   (r, s2) \<Rightarrow>
                                     if truthy r
                                     then ((Message ''Recipe added to favorites'', 201), s2)
                                     else ((Error ''Failed to add to favorites'', 500),
                                           s2))))))"

section \<open>Recipe generation\<close>

text \<open>
  \<open>RecipeService.get_fallback_recipes(ingredients)\<close> of services.py. Indexing the result
  of \<open>split\<close> raises IndexError on an empty list.
\<close>

definition first_token :: "string \<Rightarrow> py_error + string" where
  "first_token ingredients =
     (case split CHR '','' ingredients of [] \<Rightarrow> Inl IndexError | x # _ \<Rightarrow> Inr (strip x))"

definition tokens :: "nat \<Rightarrow> string \<Rightarrow> json" where
  "tokens n ingredients = JArr (map (\<lambda>ing. JStr (strip ing)) (take n (split CHR '','' ingredients)))"

definition get_fallback_recipes :: "string \<Rightarrow> py_error + json list" where
  "get_fallback_recipes ingredients =
     (case first_token ingredients of
        Inl e \<Rightarrow> Inl e
      | Inr t \<Rightarrow>
          Inr
            [JObj
               [(''name'', JStr (''Simple '' @ t @ '' Dish'')),
                (''description'',
                 JStr ''A quick and easy recipe using your available ingredients''),
                (''ingredients'', tokens 5 ingredients),
                (''instructions'',
                 JArr [JStr ''Prepare all ingredients'', JStr ''Heat oil in a pan'',
                       JStr ''Cook main ingredients until done'', JStr ''Season to taste'',
                       JStr ''Serve hot'']),
                (''cook_time'', JStr ''20 min''),
                (''difficulty'', JStr ''Easy'')],
             JObj
               [(''name'', JStr (''Healthy '' @ t @ '' Bowl'')),
                (''description'', JStr ''A nutritious bowl combining fresh ingredients''),
                (''ingredients'', tokens 4 ingredients),
                (''instructions'',
                 JArr [JStr ''Prepare vegetables'', JStr ''Cook protein if needed'',
                       JStr ''Arrange in a bowl'', JStr ''Add dressing'',
                       JStr ''Enjoy fresh'']),
                (''cook_time'', JStr ''15 min''),
                (''difficulty'', JStr ''Easy'')],
             JObj
               [(''name'', JStr (''Classic '' @ t @ '' Recipe'')),
                (''description'', JStr ''A traditional preparation method''),
                (''ingredients'', tokens 6 ingredients),
                (''instructions'',
                 JArr [JStr ''Preheat cooking surface'', JStr ''Season ingredients'',
                       JStr ''Cook according to preference'', JStr ''Let rest briefly'',
                       JStr ''Serve and enjoy'']),
                (''cook_time'', JStr ''25 min''),
                (''difficulty'', JStr ''Medium'')]])"

text \<open>
  \<open>field in recipe\<close>: key membership in a dict, element membership in a list, substring
  in a string, TypeError on anything else. \<open>all(...)\<close> stops at the first false test.
\<close>

fun py_in :: "string \<Rightarrow> json \<Rightarrow> py_error + bool" where
  "py_in field (JObj kvs) = Inr (field \<in> set (map fst kvs))"
| "py_in field (JArr xs) = Inr (JStr field \<in> set xs)"
| "py_in field (JStr t) = Inr (sublist field t)"
| "py_in field _ = Inl TypeError"

definition required_fields :: "string list" where
  "required_fields =
     [''name'', ''description'', ''ingredients'', ''instructions'', ''cook_time'', ''difficulty'']"

text \<open>The recipe is an object with the six keys.\<close>

definition has_required_fields :: "json \<Rightarrow> bool" where
  "has_required_fields r = (\<exists>kvs. r = JObj kvs \<and> set required_fields \<subseteq> fst ` set kvs)"

fun all_in :: "string list \<Rightarrow> json \<Rightarrow> py_error + bool" where
  "all_in [] recipe = Inr True"
| "all_in (field # others) recipe =
     (case py_in field recipe of
        Inl e \<Rightarrow> Inl e
      | Inr False \<Rightarrow> Inr False
      | Inr True \<Rightarrow> all_in others recipe)"

text \<open>The validation loop: ValueError at the first recipe that misses a field.\<close>

fun validate_recipes :: "json list \<Rightarrow> py_error + unit" where
  "validate_recipes [] = Inr ()"
| "validate_recipes (recipe # rest) =
     (case all_in required_fields recipe of
        Inl e \<Rightarrow> Inl e
      | Inr False \<Rightarrow> Inl ValueError
      | Inr True \<Rightarrow> validate_recipes rest)"

text \<open>
  The completion API is outside the program: its outcome is an input, either an exception
  (no network, no key, a response without content) or the text of the first choice.
  \<open>json.loads\<close> is a parameter too: None stands for JSONDecodeError.
\<close>

datatype api_outcome = ApiRaises | ApiContent string

type_synonym json_loads = "string \<Rightarrow> json option"

definition clean_response :: "string \<Rightarrow> string" where
  "clean_response content =
     (let recipes_text = strip content
      in if startswith recipes_text ''```json'' then slice_from_to_end 7 3 recipes_text
         else if startswith recipes_text ''```'' then slice_from_to_end 3 3 recipes_text
         else recipes_text)"

text \<open>
  \<open>RecipeService.generate_recipes(ingredients)\<close>: both \<open>except\<close> clauses return the
  fallback recipes; an exception raised inside a clause would leave the function.
\<close>

definition generate_recipes :: "json_loads \<Rightarrow> api_outcome \<Rightarrow> string \<Rightarrow> py_error + json list" where
  "generate_recipes loads api ingredients =
     (case api of
        ApiRaises \<Rightarrow> get_fallback_recipes ingredients
      | ApiContent content \<Rightarrow>
          (case loads (clean_response content) of
             None \<Rightarrow> get_fallback_recipes ingredients
           | Some (JArr parsed) \<Rightarrow>
               (case validate_recipes parsed of
                  Inl e \<Rightarrow> get_fallback_recipes ingredients
                | Inr u \<Rightarrow> Inr parsed)
           | Some other \<Rightarrow> get_fallback_recipes ingredients))"

text \<open>
  The call to the completion API failed or its output is not accepted: the call raised,
  the text is not JSON, the JSON is not a list, or the validation loop raised.
\<close>

definition rejected :: "json_loads \<Rightarrow> api_outcome \<Rightarrow> bool" where
  "rejected loads api =
     (case api of
        ApiRaises \<Rightarrow> True
      | ApiContent content \<Rightarrow>
          (case loads (clean_response content) of
             None \<Rightarrow> True
           | Some (JArr parsed) \<Rightarrow> validate_recipes parsed \<noteq> Inr ()
           | Some other \<Rightarrow> True))"

section \<open>Recipe search\<close>

record search_request =
  req_ingredients :: "string option"

definition insert_history :: "nat \<Rightarrow> string \<Rightarrow> nat \<Rightarrow> nat \<Rightarrow> db \<Rightarrow> nat \<times> db" where
  "insert_history uid ingredients found now s =
     (next_history_id s,
      s\<lparr>search_history := search_history s @
           [\<lparr>hist_id = next_history_id s, hist_user_id = uid, hist_ingredients = ingredients,
             hist_recipes_found = found, hist_search_time = now\<rparr>],
        next_history_id := Suc (next_history_id s)\<rparr>)"

definition sample_recipes :: "json list" where
  "sample_recipes =
     [JObj
        [(''id'', JNum 1),
         (''name'', JStr ''Chicken Tomato Curry''),
         (''description'',
          JStr ''A delicious and simple curry with tender chicken and fresh tomatoes''),
         (''ingredients'',
          JArr [JStr ''chicken'', JStr ''tomatoes'', JStr ''onions'', JStr ''garlic'',
                JStr ''spices'']),
         (''instructions'',
          JArr [JStr ''Heat oil in pan'', JStr ''Add onions and garlic'',
                JStr ''Add chicken and cook'', JStr ''Add tomatoes and spices'',
                JStr ''Simmer for 20 minutes'']),
         (''cook_time'', JStr ''30 min''),
         (''difficulty'', JStr ''Easy'')],
      JObj
        [(''id'', JNum 2),
         (''name'', JStr ''Tomato Chicken Stir Fry''),
         (''description'', JStr ''Quick and healthy stir fry with fresh vegetables''),
         (''ingredients'',
          JArr [JStr ''chicken'', JStr ''tomatoes'', JStr ''bell peppers'', JStr ''soy sauce'']),
         (''instructions'',
          JArr [JStr ''Cut chicken into strips'', JStr ''Heat wok'', JStr ''Stir fry chicken'',
                JStr ''Add vegetables'', JStr ''Season and serve'']),
         (''cook_time'', JStr ''20 min''),
         (''difficulty'', JStr ''Easy'')],
      JObj
        [(''id'', JNum 3),
         (''name'', JStr ''Mediterranean Chicken Bowl''),
         (''description'', JStr ''Fresh bowl with grilled chicken and Mediterranean flavors''),
         (''ingredients'',
          JArr [JStr ''chicken'', JStr ''tomatoes'', JStr ''cucumber'', JStr ''olive oil'',
                JStr ''herbs'']),
         (''instructions'',
          JArr [JStr ''Grill chicken'', JStr ''Chop vegetables'', JStr ''Mix dressing'',
                JStr ''Assemble bowl'', JStr ''Serve fresh'']),
         (''cook_time'', JStr ''25 min''),
         (''difficulty'', JStr ''Medium'')]]"

text \<open>
  \<open>search_recipes(current_user_id)\<close> of app.py. A missing body raises before the
  \<open>try\<close>; inside it every exception, the API's and the AttributeError of a connection
  that is None, becomes a 500. The recipes returned are the fixed samples.
\<close>

definition search_recipes ::
  "api_outcome \<Rightarrow> bool \<Rightarrow> nat \<Rightarrow> search_request option \<Rightarrow> nat \<Rightarrow> db \<Rightarrow> response \<times> db"
where
  "search_recipes api db_up now data current_user_id s =
     (case data of
        None \<Rightarrow> (internal_server_error, s)
      | Some d \<Rightarrow>
          (let ingredients = get_or (req_ingredients d) []
           in if ingredients = []
              then ((Error ''Ingredients are required'', 400), s)
              else
                (case api of
                   ApiRaises \<Rightarrow> ((Error ''Recipe search failed'', 500), s)
                 | ApiContent recipes_text \<Rightarrow>
                     if \<not> db_up then ((Error ''Recipe search failed'', 500), s)
                     else
                       (let (hid, s') = insert_history current_user_id ingredients 3 now s
                        in ((Recipes sample_recipes (length sample_recipes) ingredients, 200),
                            s')))))"

text \<open>\<open>SearchHistory.add_search\<close> of models.py.\<close>

definition add_search :: "bool \<Rightarrow> nat \<Rightarrow> nat \<Rightarrow> string \<Rightarrow> nat \<Rightarrow> db \<Rightarrow> nat option \<times> db" where
  "add_search db_up now uid ingredients found s =
     (if db_up then (let (hid, s') = insert_history uid ingredients found now s in (Some hid, s'))
      else (None, s))"

text \<open>
  \<open>recipe_data[key]\<close> and \<open>sep.join(value)\<close> on parsed JSON. A dict parsed from JSON
  has each key once. Joining iterates a list (every element must be a string), the
  characters of a string or the keys of a dict.
\<close>

fun subscript :: "json \<Rightarrow> string \<Rightarrow> py_error + json" where
  "subscript (JObj kvs) key = (case map_of kvs key of None \<Rightarrow> Inl KeyError | Some v \<Rightarrow> Inr v)"
| "subscript _ key = Inl TypeError"

fun str_items :: "json list \<Rightarrow> py_error + string list" where
  "str_items [] = Inr []"
| "str_items (JStr t # xs) = (case str_items xs of Inl e \<Rightarrow> Inl e | Inr ts \<Rightarrow> Inr (t # ts))"
| "str_items (_ # xs) = Inl TypeError"

fun py_join :: "string \<Rightarrow> json \<Rightarrow> py_error + string" where
  "py_join sep (JArr xs) = (case str_items xs of Inl e \<Rightarrow> Inl e | Inr ts \<Rightarrow> Inr (join sep ts))"
| "py_join sep (JStr t) = Inr (join sep (map (\<lambda>c. [c]) t))"
| "py_join sep (JObj kvs) = Inr (join sep (map fst kvs))"
| "py_join sep _ = Inl TypeError"

text \<open>
  One turn of the loop that stores the recipes: the six arguments are evaluated from left
  to right, then \<open>create_recipe\<close> runs (its result is dropped).
\<close>

definition store_recipe :: "bool \<Rightarrow> nat \<Rightarrow> json \<Rightarrow> db \<Rightarrow> py_error + db" where
  "store_recipe db_up now recipe_data s =
     (case subscript recipe_data ''name'' of
        Inl e \<Rightarrow> Inl e
      | Inr name \<Rightarrow>
     (case subscript recipe_data ''description'' of
        Inl e \<Rightarrow> Inl e
      | Inr description \<Rightarrow>
     (case subscript recipe_data ''ingredients'' of
        Inl e \<Rightarrow> Inl e
      | Inr ings \<Rightarrow>
     (case py_join '', '' ings of
        Inl e \<Rightarrow> Inl e
      | Inr ingredients \<Rightarrow>
     (case subscript recipe_data ''instructions'' of
        Inl e \<Rightarrow> Inl e
      | Inr instrs \<Rightarrow>
     (case py_join [CHR 0x0A] instrs of
        Inl e \<Rightarrow> Inl e
      | Inr instructions \<Rightarrow>
     (case subscript recipe_data ''cook_time'' of
        Inl e \<Rightarrow> Inl e
      | Inr cook_time \<Rightarrow>
     (case subscript recipe_data ''difficulty'' of
        Inl e \<Rightarrow> Inl e
      | Inr difficulty \<Rightarrow>
          Inr (snd (create_recipe db_up now name description ingredients instructions
                      cook_time difficulty s))))))))))"

text \<open>The loop: an exception stops it, the rows stored before it stay.\<close>

fun store_recipes :: "bool \<Rightarrow> nat \<Rightarrow> json list \<Rightarrow> db \<Rightarrow> py_error option \<times> db" where
  "store_recipes db_up now [] s = (None, s)"
| "store_recipes db_up now (recipe_data # rest) s =
     (case store_recipe db_up now recipe_data s of
        Inl e \<Rightarrow> (Some e, s)
      | Inr s' \<Rightarrow> store_recipes db_up now rest s')"

text \<open>\<open>search_recipes(current_user_id)\<close> of app_improved.py.\<close>

definition search_recipes_improved ::
  "json_loads \<Rightarrow> api_outcome \<Rightarrow> bool \<Rightarrow> nat \<Rightarrow> search_request option \<Rightarrow> nat \<Rightarrow> db
     \<Rightarrow> response \<times> db"
where
  "search_recipes_improved loads api db_up now data current_user_id s =
     (case data of
        None \<Rightarrow> ((Error ''Recipe search failed'', 500), s)
      | Some d \<Rightarrow>
          (let ingredients = strip (get_or (req_ingredients d) [])
           in if ingredients = []
              then ((Error ''Ingredients are required'', 400), s)
              else
                (case generate_recipes loads api ingredients of
                   Inl e \<Rightarrow> ((Error ''Recipe search failed'', 500), s)
                 | Inr found \<Rightarrow>
                     (let (hid, s1) = add_search db_up now current_user_id ingredients
                                        (length found) s
                      in case store_recipes db_up now found s1 of
                           (Some e, s2) \<Rightarrow> ((Error ''Recipe search failed'', 500), s2)
                         | (None, s2) \<Rightarrow>
                             ((Recipes found (length found) ingredients, 200), s2)))))"

section \<open>History and the protected routes\<close>

text \<open>\<open>get_search_history\<close> of app.py and \<open>get_history\<close> of app_improved.py.\<close>

definition get_search_history :: "bool \<Rightarrow> nat \<Rightarrow> db \<Rightarrow> response \<times> db" where
  "get_search_history db_up current_user_id s =
     (if \<not> db_up then ((Error ''Database connection failed'', 500), s)
      else ((History (get_user_history current_user_id s), 200), s))"

definition get_history :: "bool \<Rightarrow> nat \<Rightarrow> db \<Rightarrow> response \<times> db" where
  "get_history db_up current_user_id s =
     ((History (if db_up then get_user_history current_user_id s else []), 200), s)"

section \<open>Requests over time\<close>

text \<open>
  One request that may write to the database, to either application, with any inputs.
  Logging in and the listing endpoints write nothing. Both applications work on the same
  five tables.
\<close>

inductive app_step :: "db \<Rightarrow> db \<Rightarrow> bool" where
  step_register:
    "app_step s (snd (register gen enc db_up now salt data s))"
| step_register_improved:
    "app_step s (snd (register_improved cfg gen enc db_up now salt data s))"
| step_add_ingredient:
    "app_step s (snd (add_ingredient db_up now idata uid s))"
| step_add_ingredient_improved:
    "app_step s (snd (add_ingredient_improved db_up now idata uid s))"
| step_remove_ingredient:
    "app_step s (snd (remove_ingredient db_up ingredient uid s))"
| step_remove_ingredient_improved:
    "app_step s (snd (remove_ingredient_improved db_up ingredient uid s))"
| step_add_favorite:
    "app_step s (snd (add_favorite db_up now fdata uid s))"
| step_add_favorite_recipe:
    "app_step s (snd (add_favorite_recipe db_up now fdata uid s))"
| step_search_recipes:
    "app_step s (snd (search_recipes api db_up now sdata uid s))"
| step_search_recipes_improved:
    "app_step s (snd (search_recipes_improved loads api db_up now sdata uid s))"

definition reachable :: "db \<Rightarrow> bool" where
  "reachable s = app_step\<^sup>*\<^sup>* init_database s"

text \<open>
  The single-row writes the handlers are made of, with what the handlers guarantee about
  their arguments: an ingredient is stored lower-cased, and a favorite is stored for the
  recipe that the lookup by name returns.
\<close>

inductive db_write :: "db \<Rightarrow> db \<Rightarrow> bool" where
  write_user: "db_write s (snd (insert_user name email hash now s))"
| write_ingredient:
    "lower ingredient = ingredient \<Longrightarrow> db_write s (snd (insert_ingredient uid ingredient now s))"
| write_delete: "db_write s (snd (delete_ingredient uid ingredient s))"
| write_recipe:
    "db_write s (snd (insert_recipe name description ingredients instructions cook_time
                        difficulty now s))"
| write_favorite:
    "fetchone (\<lambda>r'. rec_name r' = rec_name r) (recipes s) = Some r
       \<Longrightarrow> db_write s (snd (insert_favorite uid (rec_id r) now s))"
| write_history: "db_write s (snd (insert_history uid ingredients found now s))"

text \<open>State invariants.\<close>

definition pantry_lowercase :: "db \<Rightarrow> bool" where
  "pantry_lowercase s =
     (\<forall>r \<in> set (user_ingredients s). lower (ing_ingredient r) = ing_ingredient r)"

definition recipes_wf :: "db \<Rightarrow> bool" where
  "recipes_wf s =
     (0 < next_favorite_id s \<and> 0 < next_recipe_id s
      \<and> (\<forall>r \<in> set (recipes s). 0 < rec_id r \<and> rec_id r < next_recipe_id s)
      \<and> distinct (map rec_id (recipes s))
      \<and> (\<forall>f \<in> set (user_favorites s).
            \<exists>r \<in> set (recipes s).
              rec_id r = fav_recipe_id f
              \<and> fetchone (\<lambda>r'. rec_name r' = rec_name r) (recipes s) = Some r))"

text \<open>
  The user's pantry holds the name, compared without regard to case; the user's favorites
  hold a recipe of that name (the join of \<open>get_favorites\<close>).
\<close>

definition in_pantry :: "nat \<Rightarrow> string \<Rightarrow> db \<Rightarrow> bool" where
  "in_pantry uid name s =
     (\<exists>r \<in> set (user_ingredients s). ing_user_id r = uid
        \<and> lower (ing_ingredient r) = lower name)"


section \<open>A token codec and a password hash for the examples\<close>

text \<open>
  A codec and a hash that have the two library properties, so that the theorems that
  assume them can be instantiated. The token writes the key, the user id and the expiry
  in unary; the hash appends the password to the salt.
\<close>

definition claim_or_zero :: "payload \<Rightarrow> string \<Rightarrow> nat" where
  "claim_or_zero p k = (case map_of p k of None \<Rightarrow> 0 | Some v \<Rightarrow> v)"

definition unary_enc :: jwt_encoder where
  "unary_enc p key =
     key @ ''.'' @ replicate (claim_or_zero p ''user_id'') CHR ''u'' @ ''.''
       @ replicate (claim_or_zero p ''exp'') CHR ''e''"

definition unary_dec :: jwt_decoder where
  "unary_dec token key now =
     (let body = drop (length key + 1) token;
          uid = length (takeWhile (\<lambda>c. c = CHR ''u'') body);
          e = length (drop (uid + 1) body);
          p = [(''user_id'', uid), (''exp'', e)]
      in if token \<noteq> unary_enc p key then Inl InvalidTokenError
         else if e \<le> now then Inl ExpiredSignatureError
         else Inr p)"

definition append_salt :: hash_generator where
  "append_salt salt pw = salt @ ''$'' @ pw"

definition check_suffix :: hash_checker where
  "check_suffix h pw = suffix (''$'' @ pw) h"

section \<open>Example states\<close>

text \<open>Concrete rows and states at which the theorems below are instantiated.\<close>

definition history_row_at :: "nat \<Rightarrow> history_row" where
  "history_row_at t =
     \<lparr>hist_id = t, hist_user_id = 1, hist_ingredients = ''egg'', hist_recipes_found = 3,
      hist_search_time = t\<rparr>"

definition db_22_searches :: db where
  "db_22_searches =
     init_database\<lparr>search_history := map history_row_at [1 ..< 23], next_history_id := 23\<rparr>"

definition ann_request :: register_request where
  "ann_request = \<lparr>req_name = Some ''Ann'', req_email = Some ''a@b.co'', req_password = Some ''secret1''\<rparr>"

definition ann_login :: login_request where
  "ann_login = \<lparr>login_email = Some ''a@b.co'', login_password = Some ''secret1''\<rparr>"

definition db_ann :: db where
  "db_ann = init_database\<lparr>users := [\<lparr>user_id = 1, user_name = ''Ann'', user_email = ''a@b.co'',
       user_password_hash = ''salt$secret1'', user_created_at = 100\<rparr>], next_user_id := 2\<rparr>"

definition db_ann_egg :: db where
  "db_ann_egg = db_ann\<lparr>user_ingredients := [\<lparr>ing_id = 1, ing_user_id = 1, ing_ingredient = ''egg'', ing_added_at = 101\<rparr>], next_ingredient_id := 2\<rparr>"

definition short_token :: string where
  "short_token = unary_enc [(''user_id'', 2), (''exp'', 9)] SECRET_KEY"

definition short_token_improved :: string where
  "short_token_improved =
     unary_enc [(''user_id'', 2), (''exp'', 9)] ''dev-secret-key-change-in-production''"

definition example_config :: config where
  "example_config = \<lparr>cfg_SECRET_KEY = ''dev-secret-key-change-in-production'', cfg_JWT_EXPIRATION_DAYS = 7\<rparr>"

definition bob_short_request :: register_request where
  "bob_short_request =
     \<lparr>req_name = Some ''Bob'', req_email = Some ''a@b.co'', req_password = Some ''12345''\<rparr>"

definition bad_email_request :: register_request where
  "bad_email_request =
     \<lparr>req_name = Some ''Ann'', req_email = Some ''not-an-email'',
      req_password = Some ''secret1''\<rparr>"

definition db_ann_no_egg :: db where
  "db_ann_no_egg = db_ann\<lparr>user_ingredients := [], next_ingredient_id := 2\<rparr>"




definition never_parses :: json_loads where
  "never_parses text = None"

definition egg_search :: search_request where
  "egg_search = \<lparr>req_ingredients = Some ''egg''\<rparr>"

definition padded_egg_search :: search_request where
  "padded_egg_search = \<lparr>req_ingredients = Some '' egg''\<rparr>"

definition blank_search :: search_request where
  "blank_search = \<lparr>req_ingredients = Some '' ''\<rparr>"

definition parses_to_incomplete :: json_loads where
  "parses_to_incomplete text = Some (JArr [JObj [(''name'', JStr ''Omelette'')]])"

definition egg_milk_search :: search_request where
  "egg_milk_search = \<lparr>req_ingredients = Some ''egg, milk ''\<rparr>"

definition egg_milk_fallback :: "json list" where
  "egg_milk_fallback =
     [JObj
        [(''name'', JStr ''Simple egg Dish''),
         (''description'', JStr ''A quick and easy recipe using your available ingredients''),
         (''ingredients'', JArr [JStr ''egg'', JStr ''milk'']),
         (''instructions'',
          JArr [JStr ''Prepare all ingredients'', JStr ''Heat oil in a pan'',
                JStr ''Cook main ingredients until done'', JStr ''Season to taste'',
                JStr ''Serve hot'']),
         (''cook_time'', JStr ''20 min''),
         (''difficulty'', JStr ''Easy'')],
      JObj
        [(''name'', JStr ''Healthy egg Bowl''),
         (''description'', JStr ''A nutritious bowl combining fresh ingredients''),
         (''ingredients'', JArr [JStr ''egg'', JStr ''milk'']),
         (''instructions'',
          JArr [JStr ''Prepare vegetables'', JStr ''Cook protein if needed'',
                JStr ''Arrange in a bowl'', JStr ''Add dressing'', JStr ''Enjoy fresh'']),
         (''cook_time'', JStr ''15 min''),
         (''difficulty'', JStr ''Easy'')],
      JObj
        [(''name'', JStr ''Classic egg Recipe''),
         (''description'', JStr ''A traditional preparation method''),
         (''ingredients'', JArr [JStr ''egg'', JStr ''milk'']),
         (''instructions'',
          JArr [JStr ''Preheat cooking surface'', JStr ''Season ingredients'',
                JStr ''Cook according to preference'', JStr ''Let rest briefly'',
                JStr ''Serve and enjoy'']),
         (''cook_time'', JStr ''25 min''),
         (''difficulty'', JStr ''Medium'')]]"

section \<open>Properties of the history listing\<close>

lemma select_history_sorted:
  "sorted_wrt (\<lambda>a b. hist_search_time b \<le> hist_search_time a) (select_history uid n s)"
proof -
  let ?l = "sort_key (\<lambda>r. - int (hist_search_time r))
              (filter (\<lambda>r. hist_user_id r = uid) (search_history s))"
  have "sorted (map (\<lambda>r. - int (hist_search_time r)) ?l)"
    by (rule sorted_sort_key)
  then have "sorted_wrt (\<lambda>a b. hist_search_time b \<le> hist_search_time a) ?l"
    by (simp add: sorted_map sorted_wrt_iff_nth_less)
  then show ?thesis
    unfolding select_history_def by (rule sorted_wrt_take)
qed

lemma select_history_length:
  "length (select_history uid n s)
     = min n (length (filter (\<lambda>r. hist_user_id r = uid) (search_history s)))"
  by (simp add: select_history_def min.commute)

lemma select_history_most_recent:
  assumes "r \<in> set (search_history s)" and "hist_user_id r = uid"
    and "r \<notin> set (select_history uid n s)" and "q \<in> set (select_history uid n s)"
  shows "hist_search_time r \<le> hist_search_time q"
proof -
  let ?l = "sort_key (\<lambda>r. - int (hist_search_time r))
              (filter (\<lambda>r. hist_user_id r = uid) (search_history s))"
  have srt: "sorted_wrt (\<lambda>a b. hist_search_time b \<le> hist_search_time a)
               (take n ?l @ drop n ?l)"
    using select_history_sorted[of uid "length ?l" s] by (simp add: select_history_def)
  have "r \<in> set ?l"
    using assms(1,2) by simp
  then have "r \<in> set (take n ?l) \<union> set (drop n ?l)"
    by (metis append_take_drop_id set_append)
  with assms(3) have "r \<in> set (drop n ?l)"
    by (simp add: select_history_def)
  moreover have "q \<in> set (take n ?l)"
    using assms(4) by (simp add: select_history_def)
  ultimately show ?thesis
    using srt unfolding sorted_wrt_append by blast
qed

text \<open>
  C9. With the database reachable, the history listing of either application answers 200
  with the entries of \<open>get_user_history\<close>: at most 20 of them, whatever the number of
  searches stored, in order of decreasing search time, and every row of the user that is
  left out is no more recent than any row that is listed.
\<close>

theorem history_listing_most_recent_20:
  "fst (get_search_history True uid s) = (History (get_user_history uid s), 200)
   \<and> fst (get_history True uid s) = (History (get_user_history uid s), 200)
   \<and> length (get_user_history uid s) \<le> 20
   \<and> sorted_wrt (\<lambda>a b. snd (snd b) \<le> snd (snd a)) (get_user_history uid s)
   \<and> (\<forall>r q. r \<in> set (search_history s) \<and> hist_user_id r = uid
         \<and> r \<notin> set (select_history uid 20 s) \<and> q \<in> set (select_history uid 20 s)
         \<longrightarrow> hist_search_time r \<le> hist_search_time q)"
proof -
  have "sorted_wrt (\<lambda>a b. snd (snd b) \<le> snd (snd a)) (get_user_history uid s)"
    using select_history_sorted[of uid 20 s]
    by (simp add: get_user_history_def sorted_wrt_map)
  moreover have "length (get_user_history uid s) \<le> 20"
    by (simp add: get_user_history_def select_history_length)
  ultimately show ?thesis
    using select_history_most_recent
    by (auto simp: get_search_history_def get_history_def)
qed

text \<open>
  The listing at a user with 22 searches, made at times 1 to 22: the 20 entries are those
  of times 22 down to 3, and the search of time 1 is left out.
\<close>

theorem history_listing_most_recent_20_witness:
  "history_row_at 1 \<in> set (search_history db_22_searches)
   \<and> hist_user_id (history_row_at 1) = 1
   \<and> history_row_at 1 \<notin> set (select_history 1 20 db_22_searches)
   \<and> history_row_at 22 \<in> set (select_history 1 20 db_22_searches)
   \<and> hist_search_time (history_row_at 1) \<le> hist_search_time (history_row_at 22)
   \<and> length (get_user_history 1 db_22_searches) = 20
   \<and> map (\<lambda>e. snd (snd e)) (get_user_history 1 db_22_searches) = rev [3 ..< 23]"
proof -
  have "history_row_at 1 \<in> set (search_history db_22_searches)
    \<and> hist_user_id (history_row_at 1) = 1
    \<and> history_row_at 1 \<notin> set (select_history 1 20 db_22_searches)
    \<and> history_row_at 22 \<in> set (select_history 1 20 db_22_searches)
    \<and> length (get_user_history 1 db_22_searches) = 20
    \<and> map (\<lambda>e. snd (snd e)) (get_user_history 1 db_22_searches) = rev [3 ..< 23]"
    by code_simp
  with history_listing_most_recent_20[of 1 db_22_searches] show ?thesis
    by blast
qed

section \<open>Every request is a sequence of row writes\<close>

lemma lower_char_idem: "lower_char (lower_char c) = lower_char c"
proof -
  have "of_char (char_of (n + 32) :: char) = n + 32" if "n \<le> 222" for n :: nat
    using that by (simp add: of_char_of)
  then show ?thesis
    by (auto simp: lower_char_def Let_def)
qed

lemma lower_idem: "lower (lower s) = lower s"
  by (simp add: lower_def lower_char_idem)

lemma insert_user_write: "insert_user n e h t s = (i, s') \<Longrightarrow> db_write\<^sup>*\<^sup>* s s'"
  by (metis write_user snd_conv r_into_rtranclp)

lemma insert_ingredient_write:
  "insert_ingredient u (lower x) t s = (i, s') \<Longrightarrow> db_write\<^sup>*\<^sup>* s s'"
  by (metis write_ingredient lower_idem snd_conv r_into_rtranclp)

lemma delete_ingredient_write: "delete_ingredient u x s = (n, s') \<Longrightarrow> db_write\<^sup>*\<^sup>* s s'"
  by (metis write_delete snd_conv r_into_rtranclp)

lemma insert_recipe_write: "insert_recipe a b c d e f t s = (i, s') \<Longrightarrow> db_write\<^sup>*\<^sup>* s s'"
  by (metis write_recipe snd_conv r_into_rtranclp)

lemma insert_history_write: "insert_history u x n t s = (i, s') \<Longrightarrow> db_write\<^sup>*\<^sup>* s s'"
  by (metis write_history snd_conv r_into_rtranclp)

lemma insert_favorite_write:
  "fetchone (\<lambda>r'. rec_name r' = rec_name r) (recipes s) = Some r
     \<Longrightarrow> insert_favorite u (rec_id r) t s = (i, s') \<Longrightarrow> db_write\<^sup>*\<^sup>* s s'"
  by (metis write_favorite snd_conv r_into_rtranclp)

lemma register_writes: "db_write\<^sup>*\<^sup>* s (snd (register gen enc db_up now salt data s))"
  by (auto simp: register_def Let_def split: option.splits prod.splits dest: insert_user_write)

lemma register_improved_writes:
  "db_write\<^sup>*\<^sup>* s (snd (register_improved cfg gen enc db_up now salt data s))"
  by (simp add: register_improved_def validate_email_def split: option.splits)

lemma add_ingredient_writes: "db_write\<^sup>*\<^sup>* s (snd (add_ingredient db_up now data uid s))"
  by (auto simp: add_ingredient_def Let_def split: option.splits prod.splits
           dest: insert_ingredient_write)

lemma add_ingredient_improved_writes:
  "db_write\<^sup>*\<^sup>* s (snd (add_ingredient_improved db_up now data uid s))"
  by (auto simp: add_ingredient_improved_def Ingredient_add_ingredient_def Let_def
           split: option.splits prod.splits if_splits dest: insert_ingredient_write)

lemma remove_ingredient_writes:
  "db_write\<^sup>*\<^sup>* s (snd (remove_ingredient db_up x uid s))"
  by (auto simp: remove_ingredient_def Let_def split: prod.splits dest: delete_ingredient_write)

lemma remove_ingredient_improved_writes:
  "db_write\<^sup>*\<^sup>* s (snd (remove_ingredient_improved db_up x uid s))"
  by (auto simp: remove_ingredient_improved_def Ingredient_remove_ingredient_def Let_def
           split: prod.splits if_splits dest: delete_ingredient_write)

lemma search_recipes_writes:
  "db_write\<^sup>*\<^sup>* s (snd (search_recipes api db_up now data uid s))"
  by (auto simp: search_recipes_def Let_def split: option.splits prod.splits api_outcome.splits
           dest: insert_history_write)

lemma create_recipe_writes:
  "db_write\<^sup>*\<^sup>* s (snd (create_recipe db_up now a b c d e f s))"
  by (auto simp: create_recipe_def Let_def split: option.splits prod.splits
           dest: insert_recipe_write)

lemma store_recipe_writes: "store_recipe db_up now r s = Inr s' \<Longrightarrow> db_write\<^sup>*\<^sup>* s s'"
  by (auto simp: store_recipe_def create_recipe_writes split: sum.splits)

lemma store_recipes_writes: "db_write\<^sup>*\<^sup>* s (snd (store_recipes db_up now rs s))"
proof (induction rs arbitrary: s)
  case Nil
  then show ?case by simp
next
  case (Cons r rs)
  show ?case
  proof (cases "store_recipe db_up now r s")
    case (Inl e)
    then show ?thesis by simp
  next
    case (Inr s')
    then have "db_write\<^sup>*\<^sup>* s s'" by (rule store_recipe_writes)
    with Cons[of s'] Inr show ?thesis by simp
  qed
qed

lemma add_search_writes: "db_write\<^sup>*\<^sup>* s (snd (add_search db_up now uid x n s))"
  by (auto simp: add_search_def split: prod.splits dest: insert_history_write)

lemma search_recipes_improved_writes:
  "db_write\<^sup>*\<^sup>* s (snd (search_recipes_improved loads api db_up now data uid s))"
proof -
  have "db_write\<^sup>*\<^sup>* s (snd (store_recipes db_up now found (snd (add_search db_up now uid x n s))))"
    for found x n
    using add_search_writes store_recipes_writes by (rule rtranclp_trans)
  then show ?thesis
    by (auto simp: search_recipes_improved_def Let_def
             split: option.splits prod.splits sum.splits)
      (metis snd_conv)+
qed

lemma fetchone_append:
  "fetchone P (xs @ ys) = (case fetchone P xs of None \<Rightarrow> fetchone P ys | Some x \<Rightarrow> Some x)"
  by (induction xs) (auto simp: fetchone_def)

lemma fetchone_SomeD: "fetchone P xs = Some x \<Longrightarrow> P x \<and> x \<in> set xs"
  unfolding fetchone_def by (induction xs) (auto split: if_splits)

lemma fetchone_None_iff: "fetchone P xs = None \<longleftrightarrow> (\<forall>x \<in> set xs. \<not> P x)"
  unfolding fetchone_def by (auto simp: find_None_iff)

lemma fetchone_by_value_self:
  "fetchone (\<lambda>r. f r = v) xs = Some r \<Longrightarrow> fetchone (\<lambda>r'. f r' = f r) xs = Some r"
  using fetchone_SomeD[of "\<lambda>r. f r = v" xs r] by auto

lemma add_favorite_writes: "db_write\<^sup>*\<^sup>* s (snd (add_favorite db_up now data uid s))"
proof -
  have found: "db_write\<^sup>*\<^sup>* s (snd (insert_favorite uid (rec_id r) now s))"
    if "fetchone (\<lambda>r. rec_name r = SqlText name) (recipes s) = Some r" for r name
    using that by (metis fetchone_by_value_self write_favorite r_into_rtranclp)
  have fresh: "db_write\<^sup>*\<^sup>* s (snd (insert_favorite uid rid now s1))"
    if "fetchone (\<lambda>r. rec_name r = SqlText name) (recipes s) = None"
      and "insert_recipe (SqlText name) b c d e f now s = (rid, s1)" for name b c d e f rid s1
  proof -
    let ?row = "\<lparr>rec_id = next_recipe_id s, rec_name = SqlText name, rec_description = b,
             rec_ingredients = c, rec_instructions = d,
             rec_cook_time = e, rec_difficulty = f, rec_created_at = now\<rparr>"
    have s1: "recipes s1 = recipes s @ [?row]" and rid: "rid = rec_id ?row"
      using that(2) by (auto simp: insert_recipe_def)
    have "fetchone (\<lambda>r'. rec_name r' = rec_name ?row) (recipes s1) = Some ?row"
      using that(1) by (simp add: s1 fetchone_append) (simp add: fetchone_def)
    then have "db_write s1 (snd (insert_favorite uid (rec_id ?row) now s1))"
      by (rule write_favorite)
    moreover have "db_write s s1"
      using that(2) by (metis write_recipe snd_conv)
    ultimately show ?thesis
      unfolding rid by (meson rtranclp.rtrancl_into_rtrancl r_into_rtranclp)
  qed
  show ?thesis
    by (auto simp: add_favorite_def Let_def split: option.splits prod.splits
        dest: found fresh)
qed

lemma add_favorite_recipe_writes:
  "db_write\<^sup>*\<^sup>* s (snd (add_favorite_recipe db_up now data uid s))"
proof -
  have found: "db_write\<^sup>*\<^sup>* s (snd (insert_favorite uid (rec_id r) now s))"
    if "fetchone (\<lambda>r. rec_name r = SqlText name) (recipes s) = Some r" for r name
    using that by (metis fetchone_by_value_self write_favorite r_into_rtranclp)
  have fresh: "db_write\<^sup>*\<^sup>* s (snd (insert_favorite uid rid now s1))"
    if "fetchone (\<lambda>r. rec_name r = SqlText name) (recipes s) = None"
      and "insert_recipe (SqlText name) b c d e f now s = (rid, s1)" for name b c d e f rid s1
  proof -
    let ?row = "\<lparr>rec_id = next_recipe_id s, rec_name = SqlText name, rec_description = b,
             rec_ingredients = c, rec_instructions = d,
             rec_cook_time = e, rec_difficulty = f, rec_created_at = now\<rparr>"
    have s1: "recipes s1 = recipes s @ [?row]" and rid: "rid = rec_id ?row"
      using that(2) by (auto simp: insert_recipe_def)
    have "fetchone (\<lambda>r'. rec_name r' = rec_name ?row) (recipes s1) = Some ?row"
      using that(1) by (simp add: s1 fetchone_append) (simp add: fetchone_def)
    then have "db_write s1 (snd (insert_favorite uid (rec_id ?row) now s1))"
      by (rule write_favorite)
    moreover have "db_write s s1"
      using that(2) by (metis write_recipe snd_conv)
    ultimately show ?thesis
      unfolding rid by (meson rtranclp.rtrancl_into_rtrancl r_into_rtranclp)
  qed
  have fresh': "db_write\<^sup>*\<^sup>* s s1"
    if "insert_recipe a b c d e f now s = (rid, s1)" for a b c d e f rid s1
    using that by (rule insert_recipe_write)
  show ?thesis
    by (auto simp: add_favorite_recipe_def get_recipe_by_name_def create_recipe_def
          Favorite_add_favorite_def is_favorite_def Let_def
        split: option.splits prod.splits if_splits
        dest: found fresh fresh')
qed

lemma app_step_writes: "app_step s s' \<Longrightarrow> db_write\<^sup>*\<^sup>* s s'"
  by (induction rule: app_step.induct)
    (rule register_writes register_improved_writes add_ingredient_writes
       add_ingredient_improved_writes remove_ingredient_writes
       remove_ingredient_improved_writes add_favorite_writes add_favorite_recipe_writes
       search_recipes_writes search_recipes_improved_writes)+

lemma reachable_writes: "reachable s \<Longrightarrow> db_write\<^sup>*\<^sup>* init_database s"
  unfolding reachable_def
  by (induction rule: rtranclp_induct) (auto dest: app_step_writes)

lemma app_steps_writes: "app_step\<^sup>*\<^sup>* s s' \<Longrightarrow> db_write\<^sup>*\<^sup>* s s'"
  by (induction rule: rtranclp_induct) (auto dest: app_step_writes)

section \<open>Invariants of the reachable states\<close>

lemma db_write_users: "db_write s s' \<Longrightarrow> prefix (users s) (users s')"
  by (induction rule: db_write.induct)
    (simp_all add: insert_user_def insert_ingredient_def delete_ingredient_def
       insert_recipe_def insert_favorite_def insert_history_def)

lemma db_writes_users: "db_write\<^sup>*\<^sup>* s s' \<Longrightarrow> prefix (users s) (users s')"
  by (induction rule: rtranclp_induct) (auto dest: db_write_users)

lemma db_write_pantry_lowercase: "db_write s s' \<Longrightarrow> pantry_lowercase s \<Longrightarrow> pantry_lowercase s'"
  by (induction rule: db_write.induct)
    (auto simp: pantry_lowercase_def insert_user_def insert_ingredient_def delete_ingredient_def
       insert_recipe_def insert_favorite_def insert_history_def)

lemma db_write_recipes_wf: "db_write s s' \<Longrightarrow> recipes_wf s \<Longrightarrow> recipes_wf s'"
proof (induction rule: db_write.induct)
  case (write_recipe s name description ingredients instructions cook_time difficulty now)
  then show ?case
    by (fastforce simp: recipes_wf_def insert_recipe_def fetchone_append less_Suc_eq)
next
  case (write_favorite r s uid now)
  then show ?case
    by (auto simp: recipes_wf_def insert_favorite_def dest: fetchone_SomeD)
qed (simp_all add: recipes_wf_def insert_user_def insert_ingredient_def delete_ingredient_def
       insert_history_def)

lemma init_database_wf: "pantry_lowercase init_database \<and> recipes_wf init_database"
  by (simp add: pantry_lowercase_def recipes_wf_def init_database_def)

lemma reachable_invariants: "reachable s \<Longrightarrow> pantry_lowercase s \<and> recipes_wf s"
proof -
  assume "reachable s"
  then have "db_write\<^sup>*\<^sup>* init_database s" by (rule reachable_writes)
  then show ?thesis
    by (induction rule: rtranclp_induct)
      (auto simp: init_database_wf dest: db_write_pantry_lowercase db_write_recipes_wf)
qed

section \<open>Tokens: from registration to the auth decorator\<close>

lemma unary_codec_round_trip: "pyjwt_round_trip unary_enc unary_dec"
proof -
  have tw: "takeWhile (\<lambda>c. c = CHR ''u'') (replicate uid CHR ''u'' @ CHR ''.'' # rest)
              = replicate uid CHR ''u''" for uid rest
    by (induction uid) auto
  show ?thesis
    unfolding pyjwt_round_trip_def
    by (auto simp: unary_dec_def unary_enc_def claim_or_zero_def Let_def tw)
qed

lemma salted_hash_round_trip: "werkzeug_round_trip append_salt check_suffix"
  by (simp add: werkzeug_round_trip_def append_salt_def check_suffix_def suffix_def)

lemma register_created:
  assumes "register gen enc True t0 salt
             (Some \<lparr>req_name = Some name, req_email = Some email, req_password = Some password\<rparr>) s
           = ((b, 201), s1)"
  shows "fetchone (\<lambda>u. user_email u = email) (users s) = None
         \<and> users s1 = users s @ [\<lparr>user_id = next_user_id s, user_name = name, user_email = email,
               user_password_hash = gen salt password, user_created_at = t0\<rparr>]
         \<and> b = Auth ''User registered successfully''
                 (enc [(''user_id'', next_user_id s), (''exp'', t0 + timedelta_days 7)] SECRET_KEY)
                 (next_user_id s) name email"
  using assms
  by (auto simp: register_def insert_user_def Let_def split: if_splits)

lemma user_row_persists:
  assumes "fetchone (\<lambda>u. user_email u = email) (users s) = None"
    and "users s1 = users s @ [row]" and "user_email row = email"
    and "app_step\<^sup>*\<^sup>* s1 s2"
  shows "fetchone (\<lambda>u. user_email u = email) (users s2) = Some row"
proof -
  have "prefix (users s1) (users s2)"
    using assms(4) by (intro db_writes_users app_steps_writes)
  then obtain more where "users s2 = (users s @ [row]) @ more"
    unfolding assms(2) prefix_def by blast
  then show ?thesis
    using assms(1,3) by (simp add: fetchone_append) (simp add: fetchone_def)
qed

lemma ann_email_matches: "re_match email_pattern ''a@b.co''"
  by code_simp

lemma register_ann:
  "register append_salt unary_enc True 100 ''salt'' (Some ann_request) init_database
     = ((Auth ''User registered successfully''
           (unary_enc [(''user_id'', 1), (''exp'', 604900)] SECRET_KEY) 1 ''Ann'' ''a@b.co'', 201),
        db_ann)"
  by (simp add: register_def ann_request_def ann_email_matches fetchone_def init_database_def
        insert_user_def append_salt_def db_ann_def timedelta_days_def)

lemma add_egg:
  "add_ingredient True 101 (Some \<lparr>req_ingredient = Some ''Egg''\<rparr>) 1 db_ann
     = ((IngredientAdded ''Ingredient added successfully'' ''egg'', 201), db_ann_egg)"
  by code_simp

text \<open>
  C3. Assume the two library properties. A user registers (201) and receives the id
  \<open>uid\<close>; any number of later requests follow. Logging in with the same email and
  password then succeeds, in either application, and the token it returns, sent as
  \<open>Bearer <token>\<close> before it expires, makes the auth decorator call the handler with
  exactly \<open>uid\<close>.
\<close>

theorem login_token_round_trip:
  assumes "pyjwt_round_trip enc dec" and "werkzeug_round_trip gen chk"
    and "register gen enc True t0 salt
           (Some \<lparr>req_name = Some name, req_email = Some email, req_password = Some password\<rparr>) s
         = ((Auth msg tok0 uid name0 email0, 201), s1)"
    and "app_step\<^sup>*\<^sup>* s1 s2"
    and "t2 < t1 + timedelta_days 7"
    and "t2 < t1 + timedelta_days (cfg_JWT_EXPIRATION_DAYS cfg)"
  shows "(\<exists>tok. login chk enc True t1
                  (Some \<lparr>login_email = Some email, login_password = Some password\<rparr>) s2
                = ((Auth ''Login successful'' tok uid name email, 200), s2)
              \<and> token_required dec t2 f (Some (''Bearer '' @ tok)) s3 = f uid s3)
       \<and> (\<exists>tok. login_improved cfg chk enc True t1
                  (Some \<lparr>login_email = Some email, login_password = Some password\<rparr>) s2
                = ((Auth ''Login successful'' tok uid name email, 200), s2)
              \<and> token_required_improved cfg dec t2 f (Some (''Bearer '' @ tok)) s3 = f uid s3)"
proof -
  let ?row = "\<lparr>user_id = next_user_id s, user_name = name, user_email = email,
               user_password_hash = gen salt password, user_created_at = t0\<rparr>"
  from register_created[OF assms(3)]
  have none: "fetchone (\<lambda>u. user_email u = email) (users s) = None"
    and s1: "users s1 = users s @ [?row]" and uid: "uid = next_user_id s"
    by auto
  have nonempty: "email \<noteq> []" "password \<noteq> []"
    using assms(3) by (auto simp: register_def split: if_splits)
  have row: "fetchone (\<lambda>u. user_email u = email) (users s2) = Some ?row"
    using none s1 _ assms(4) by (rule user_row_persists) simp
  have chk: "chk (user_password_hash ?row) password"
    using assms(2) by (simp add: werkzeug_round_trip_def)
  have dec: "dec (enc [(''user_id'', uid), (''exp'', e)] key) key t2
               = Inr [(''user_id'', uid), (''exp'', e)]" if "t2 < e" for e key
    using assms(1) that by (simp add: pyjwt_round_trip_def)
  have "login chk enc True t1
          (Some \<lparr>login_email = Some email, login_password = Some password\<rparr>) s2
        = ((Auth ''Login successful''
              (enc [(''user_id'', uid), (''exp'', t1 + timedelta_days 7)] SECRET_KEY)
              uid name email, 200), s2)"
    using row chk nonempty by (simp add: login_def uid)
  moreover have "token_required dec t2 f
       (Some (''Bearer '' @ enc [(''user_id'', uid), (''exp'', t1 + timedelta_days 7)] SECRET_KEY)) s3
     = f uid s3"
    using dec[OF assms(5)] by (simp add: token_required_def startswith_def)
  moreover have "login_improved cfg chk enc True t1
          (Some \<lparr>login_email = Some email, login_password = Some password\<rparr>) s2
        = ((Auth ''Login successful''
              (enc [(''user_id'', uid),
                    (''exp'', t1 + timedelta_days (cfg_JWT_EXPIRATION_DAYS cfg))]
                 (cfg_SECRET_KEY cfg))
              uid name email, 200), s2)"
    using row chk by (simp add: login_improved_def get_user_by_email_def uid)
  moreover have "token_required_improved cfg dec t2 f
       (Some (''Bearer '' @ enc [(''user_id'', uid),
                    (''exp'', t1 + timedelta_days (cfg_JWT_EXPIRATION_DAYS cfg))]
                 (cfg_SECRET_KEY cfg))) s3
     = f uid s3"
    using dec[OF assms(6)] by (simp add: token_required_improved_def startswith_def)
  ultimately show ?thesis by blast
qed

text \<open>
  Ann registers in the empty database at time 100, adds an ingredient, logs in at time
  200 and uses the token at time 300.
\<close>

theorem login_token_round_trip_witness:
  "pyjwt_round_trip unary_enc unary_dec \<and> werkzeug_round_trip append_salt check_suffix
   \<and> register append_salt unary_enc True 100 ''salt'' (Some ann_request) init_database
     = ((Auth ''User registered successfully''
           (unary_enc [(''user_id'', 1), (''exp'', 604900)] SECRET_KEY) 1 ''Ann'' ''a@b.co'', 201),
        db_ann)
   \<and> app_step\<^sup>*\<^sup>* db_ann db_ann_egg
   \<and> (300 :: nat) < 200 + timedelta_days 7
   \<and> (300 :: nat) < 200 + timedelta_days (cfg_JWT_EXPIRATION_DAYS example_config)
   \<and> (\<exists>tok. login check_suffix unary_enc True 200 (Some ann_login) db_ann_egg
              = ((Auth ''Login successful'' tok 1 ''Ann'' ''a@b.co'', 200), db_ann_egg)
          \<and> token_required unary_dec 300 (get_search_history True) (Some (''Bearer '' @ tok))
               db_ann_egg
             = get_search_history True 1 db_ann_egg)
   \<and> (\<exists>tok. login_improved example_config check_suffix unary_enc True 200 (Some ann_login)
                db_ann_egg
              = ((Auth ''Login successful'' tok 1 ''Ann'' ''a@b.co'', 200), db_ann_egg)
          \<and> token_required_improved example_config unary_dec 300 (get_history True)
               (Some (''Bearer '' @ tok)) db_ann_egg
             = get_history True 1 db_ann_egg)"
proof -
  have "app_step db_ann
          (snd (add_ingredient True 101 (Some \<lparr>req_ingredient = Some ''Egg''\<rparr>) 1 db_ann))"
    by (rule step_add_ingredient)
  then have step: "app_step\<^sup>*\<^sup>* db_ann db_ann_egg"
    by (simp only: add_egg snd_conv r_into_rtranclp)
  have t: "(300 :: nat) < 200 + timedelta_days 7"
    "(300 :: nat) < 200 + timedelta_days (cfg_JWT_EXPIRATION_DAYS example_config)"
    by (simp_all add: timedelta_days_def example_config_def)
  note reg = register_ann[unfolded ann_request_def]
  from login_token_round_trip[OF unary_codec_round_trip salted_hash_round_trip reg step t(1),
      of example_config "get_search_history True" db_ann_egg]
    login_token_round_trip[OF unary_codec_round_trip salted_hash_round_trip reg step t(1),
      of example_config "get_history True" db_ann_egg]
  show ?thesis
    using unary_codec_round_trip salted_hash_round_trip register_ann step t
    by (simp add: ann_login_def)
qed

section \<open>The Bearer prefix is optional\<close>

text \<open>
  C10. A non-empty Authorization header that does not start with \<open>Bearer \<close> is treated
  exactly as the same text behind the prefix, by both decorators: the two forms give the
  same result, and when the raw token decodes to a payload with a \<open>user_id\<close>, both call
  the handler with that user id.
\<close>

theorem raw_token_accepted_like_bearer:
  assumes "token \<noteq> []" and "\<not> startswith token ''Bearer ''"
  shows "token_required dec now f (Some token) s
           = token_required dec now f (Some (''Bearer '' @ token)) s
         \<and> token_required_improved cfg dec now f (Some token) s
           = token_required_improved cfg dec now f (Some (''Bearer '' @ token)) s
         \<and> (\<forall>data uid. dec token SECRET_KEY now = Inr data \<and> map_of data ''user_id'' = Some uid
               \<longrightarrow> token_required dec now f (Some token) s = f uid s)
         \<and> (\<forall>data uid. dec token (cfg_SECRET_KEY cfg) now = Inr data
                 \<and> map_of data ''user_id'' = Some uid
               \<longrightarrow> token_required_improved cfg dec now f (Some token) s = f uid s)"
  using assms
  by (auto simp: token_required_def token_required_improved_def startswith_def Let_def)

text \<open>
  A token for user 2, signed with the key of each application and sent raw and behind the
  prefix, reaches the handler as user 2.
\<close>

theorem raw_token_accepted_like_bearer_witness:
  "short_token \<noteq> [] \<and> \<not> startswith short_token ''Bearer ''
   \<and> unary_dec short_token SECRET_KEY 3 = Inr [(''user_id'', 2), (''exp'', 9)]
   \<and> map_of [(''user_id'', 2), (''exp'', 9 :: nat)] ''user_id'' = Some (2 :: nat)
   \<and> token_required unary_dec 3 (get_search_history True) (Some short_token) init_database
     = get_search_history True 2 init_database
   \<and> token_required unary_dec 3 (get_search_history True) (Some (''Bearer '' @ short_token))
        init_database
     = get_search_history True 2 init_database
   \<and> short_token_improved \<noteq> [] \<and> \<not> startswith short_token_improved ''Bearer ''
   \<and> unary_dec short_token_improved (cfg_SECRET_KEY example_config) 3
     = Inr [(''user_id'', 2), (''exp'', 9)]
   \<and> token_required_improved example_config unary_dec 3 (get_history True)
        (Some short_token_improved) init_database
     = get_history True 2 init_database
   \<and> token_required_improved example_config unary_dec 3 (get_history True)
        (Some (''Bearer '' @ short_token_improved)) init_database
     = get_history True 2 init_database"
proof -
  have h: "short_token \<noteq> []" "\<not> startswith short_token ''Bearer ''"
    "unary_dec short_token SECRET_KEY 3 = Inr [(''user_id'', 2), (''exp'', 9)]"
    "map_of [(''user_id'', 2), (''exp'', 9 :: nat)] ''user_id'' = Some (2 :: nat)"
    by code_simp+
  have h': "short_token_improved \<noteq> []" "\<not> startswith short_token_improved ''Bearer ''"
    "unary_dec short_token_improved (cfg_SECRET_KEY example_config) 3
       = Inr [(''user_id'', 2), (''exp'', 9)]"
    by code_simp+
  from raw_token_accepted_like_bearer[OF h(1,2), of unary_dec 3 "get_search_history True"
      init_database example_config]
    raw_token_accepted_like_bearer[OF h'(1,2), of unary_dec 3 "get_history True"
      init_database example_config]
  show ?thesis
    using h h' by metis
qed

section \<open>Registration: duplicate emails and validation\<close>

lemma fetchone_email_registered:
  "email \<in> set (map user_email (users s))
     \<Longrightarrow> fetchone (\<lambda>u. user_email u = email) (users s) \<noteq> None"
  by (auto simp: fetchone_None_iff)

text \<open>
  C2 as stated fails: validation comes before the duplicate check. A request that reuses
  Ann's email with a password of five characters is answered 400, not 409.
\<close>

theorem register_duplicate_email_counterexample:
  "''a@b.co'' \<in> set (map user_email (users db_ann))
   \<and> register append_salt unary_enc True 150 ''pepper'' (Some bob_short_request) db_ann
     = ((Error ''Password must be at least 6 characters long'', 400), db_ann)"
  by (simp add: db_ann_def init_database_def register_def bob_short_request_def
        ann_email_matches)

text \<open>
  C2, amended. A registration request to app.py whose email is the email of an existing
  user never changes the database; when it passes validation (a name, a well-formed
  email, a password of at least 6 characters) and the database is reachable, the answer
  is 409.
\<close>

theorem register_duplicate_email_conflict:
  assumes "email \<in> set (map user_email (users s))" and "req_email d = Some email"
  shows "snd (register gen enc db_up now salt (Some d) s) = s
         \<and> (req_name d = Some name \<and> name \<noteq> [] \<and> req_password d = Some password
              \<and> 6 \<le> length password \<and> re_match email_pattern email \<and> db_up
            \<longrightarrow> fst (register gen enc db_up now salt (Some d) s)
                  = (Error ''Email already registered'', 409))"
proof -
  have found: "fetchone (\<lambda>u. user_email u = email) (users s) \<noteq> None"
    using assms(1) by (rule fetchone_email_registered)
  have "email \<noteq> []" if "re_match email_pattern email"
    using that by (auto simp: email_pattern_def)
  with found assms(2) show ?thesis
    by (auto simp: register_def split: option.splits)
qed

text \<open>Ann registers a second time with a valid request: 409, nothing stored.\<close>

theorem register_duplicate_email_conflict_witness:
  "''a@b.co'' \<in> set (map user_email (users db_ann))
   \<and> req_email ann_request = Some ''a@b.co''
   \<and> req_name ann_request = Some ''Ann'' \<and> ''Ann'' \<noteq> []
   \<and> req_password ann_request = Some ''secret1'' \<and> 6 \<le> length ''secret1''
   \<and> re_match email_pattern ''a@b.co''
   \<and> register append_salt unary_enc True 150 ''pepper'' (Some ann_request) db_ann
     = ((Error ''Email already registered'', 409), db_ann)"
proof -
  have h: "''a@b.co'' \<in> set (map user_email (users db_ann))"
    "req_email ann_request = Some ''a@b.co''"
    "req_name ann_request = Some ''Ann'' \<and> ''Ann'' \<noteq> []
      \<and> req_password ann_request = Some ''secret1'' \<and> 6 \<le> length ''secret1''
      \<and> re_match email_pattern ''a@b.co''"
    by (simp_all add: db_ann_def init_database_def ann_request_def ann_email_matches)
  from register_duplicate_email_conflict[OF h(1,2), where gen = append_salt and enc = unary_enc
      and db_up = True and now = 150 and salt = "''pepper''" and name = "''Ann''"
      and password = "''secret1''"] h
  show ?thesis
    by (metis prod.collapse)
qed

text \<open>
  Validation in app.py: an email that does not match the pattern, or a password shorter
  than 6 characters, is answered 400 and nothing is stored.
\<close>

lemma register_rejects_invalid:
  assumes "(req_email d = Some email \<and> \<not> re_match email_pattern email)
           \<or> (req_password d = Some password \<and> length password < 6)"
  shows "snd (fst (register gen enc db_up now salt (Some d) s)) = 400
         \<and> snd (register gen enc db_up now salt (Some d) s) = s"
  using assms by (auto simp: register_def split: option.splits)

lemma bad_email_does_not_match: "\<not> re_match email_pattern ''not-an-email''"
  by code_simp

lemma register_improved_never_validates:
  "req_name d = Some name \<Longrightarrow> req_email d = Some email \<Longrightarrow> req_password d = Some password
     \<Longrightarrow> register_improved cfg gen enc db_up now salt (Some d) s
         = ((Error ''Registration failed'', 500), s)"
  by (simp add: register_improved_def validate_email_def)

text \<open>
  C6 fails in app_improved.py. A request with the email \<open>not-an-email\<close>, which does not
  match the pattern, is answered 500 there, because \<open>validate_email\<close> is not defined;
  app.py answers the same request 400.
\<close>

theorem register_improved_bad_email_500:
  "\<not> re_match email_pattern ''not-an-email''
   \<and> register_improved example_config append_salt unary_enc True 100 ''salt''
       (Some bad_email_request) init_database
     = ((Error ''Registration failed'', 500), init_database)
   \<and> register append_salt unary_enc True 100 ''salt'' (Some bad_email_request) init_database
     = ((Error ''Invalid email format'', 400), init_database)"
  by (simp add: bad_email_does_not_match register_improved_def register_def
        bad_email_request_def validate_email_def)

section \<open>Pantry: adding twice, removing\<close>

lemma isspace_lower_char: "isspace (lower_char c) = isspace c"
proof -
  have "of_char (char_of (n + 32) :: char) = n + 32" if "n \<le> 222" for n :: nat
    using that by (simp add: of_char_of)
  then show ?thesis
    by (auto simp: isspace_def lower_char_def Let_def)
qed

lemma lower_strip: "lower (strip s) = strip (lower s)"
proof -
  have dw: "dropWhile isspace (map lower_char xs) = map lower_char (dropWhile isspace xs)" for xs
    by (simp add: dropWhile_map comp_def isspace_lower_char)
  show ?thesis
    by (simp add: lower_def strip_def rev_map dw)
qed

lemma add_ingredient_created:
  assumes "add_ingredient True t1 (Some \<lparr>req_ingredient = Some n1\<rparr>) uid s = ((b, 201), s1)
           \<or> add_ingredient_improved True t1 (Some \<lparr>req_ingredient = Some n1\<rparr>) uid s
              = ((b, 201), s1)"
  shows "strip n1 \<noteq> []
         \<and> s1 = s\<lparr>user_ingredients := user_ingredients s @
                     [\<lparr>ing_id = next_ingredient_id s, ing_user_id = uid,
                       ing_ingredient = lower (strip n1), ing_added_at = t1\<rparr>],
                   next_ingredient_id := Suc (next_ingredient_id s)\<rparr>
         \<and> b = IngredientAdded ''Ingredient added successfully'' (lower (strip n1))"
  using assms
  by (auto simp: add_ingredient_def add_ingredient_improved_def ingredient_exists_def
        Ingredient_add_ingredient_def insert_ingredient_def truthy_def Let_def lower_def
      split: if_splits)

text \<open>
  C4. After an add that succeeded (201), in either application, the row stored for the
  user holds the stripped, lower-cased name, and adding a name that differs from the first
  only in letter case is answered 409, by either application, with nothing stored.
\<close>

theorem add_ingredient_twice_conflict:
  assumes "add_ingredient True t1 (Some \<lparr>req_ingredient = Some n1\<rparr>) uid s = ((b, 201), s1)
           \<or> add_ingredient_improved True t1 (Some \<lparr>req_ingredient = Some n1\<rparr>) uid s
              = ((b, 201), s1)"
    and "lower n2 = lower n1"
  shows "user_ingredients s1
           = user_ingredients s @
               [\<lparr>ing_id = next_ingredient_id s, ing_user_id = uid,
                 ing_ingredient = lower (strip n1), ing_added_at = t1\<rparr>]
         \<and> add_ingredient True t2 (Some \<lparr>req_ingredient = Some n2\<rparr>) uid s1
           = ((Error ''Ingredient already added'', 409), s1)
         \<and> add_ingredient_improved True t2 (Some \<lparr>req_ingredient = Some n2\<rparr>) uid s1
           = ((Error ''Ingredient already added'', 409), s1)"
proof -
  from add_ingredient_created[OF assms(1)]
  have ne: "strip n1 \<noteq> []"
    and s1: "user_ingredients s1 = user_ingredients s @
               [\<lparr>ing_id = next_ingredient_id s, ing_user_id = uid,
                 ing_ingredient = lower (strip n1), ing_added_at = t1\<rparr>]"
    by auto
  have same: "lower (strip n2) = lower (strip n1)"
    using assms(2) by (simp add: lower_strip)
  have ne2: "strip n2 \<noteq> []" "lower (strip n2) \<noteq> []"
    using ne same by (auto simp: lower_def)
  have found: "fetchone (ingredient_matches uid (lower (strip n1))) (user_ingredients s1) \<noteq> None"
    by (simp add: s1 fetchone_None_iff ingredient_matches_def)
  show ?thesis
    using found ne2 s1
    by (simp add: add_ingredient_def add_ingredient_improved_def ingredient_exists_def same)
qed

text \<open>User 1 adds \<open>Egg\<close>, stored as \<open>egg\<close>; adding \<open>EGG\<close> is then answered 409.\<close>

theorem add_ingredient_twice_conflict_witness:
  "add_ingredient True 101 (Some \<lparr>req_ingredient = Some ''Egg''\<rparr>) 1 db_ann
     = ((IngredientAdded ''Ingredient added successfully'' ''egg'', 201), db_ann_egg)
   \<and> lower ''EGG'' = lower ''Egg''
   \<and> map ing_ingredient (user_ingredients db_ann_egg) = [''egg'']
   \<and> add_ingredient True 102 (Some \<lparr>req_ingredient = Some ''EGG''\<rparr>) 1 db_ann_egg
     = ((Error ''Ingredient already added'', 409), db_ann_egg)
   \<and> add_ingredient_improved True 102 (Some \<lparr>req_ingredient = Some ''EGG''\<rparr>) 1 db_ann_egg
     = ((Error ''Ingredient already added'', 409), db_ann_egg)"
proof -
  have h: "lower ''EGG'' = lower ''Egg''"
    "map ing_ingredient (user_ingredients db_ann_egg) = [''egg'']"
    by code_simp+
  from add_ingredient_twice_conflict[OF disjI1[OF add_egg] h(1), of 102]
  show ?thesis
    using add_egg h by simp
qed

text \<open>
  Removal in app.py, in a state whose stored names are lower-case (as they are in every
  reachable state): 404 exactly when the name is absent from the user's pantry, compared
  without regard to case; 200 when it is present; absent afterwards. Removal in
  app_improved.py tests \<open>cursor.lastrowid\<close>, which is 0 after a DELETE, and so always
  answers 404.
\<close>

lemma remove_ingredient_found_iff:
  assumes "pantry_lowercase s"
  shows "(snd (fst (remove_ingredient True name uid s)) = 404 \<longleftrightarrow> \<not> in_pantry uid name s)
         \<and> (in_pantry uid name s
              \<longrightarrow> fst (remove_ingredient True name uid s)
                    = (Message ''Ingredient removed successfully'', 200))
         \<and> \<not> in_pantry uid name (snd (remove_ingredient True name uid s))
         \<and> lower name \<notin> set (get_user_ingredients uid (snd (remove_ingredient True name uid s)))"
proof -
  have eq: "in_pantry uid name s
              \<longleftrightarrow> filter (ingredient_matches uid (lower name)) (user_ingredients s) \<noteq> []"
    using assms
    by (auto simp: in_pantry_def pantry_lowercase_def ingredient_matches_def filter_empty_conv)
  have gone: "\<not> in_pantry uid name (snd (remove_ingredient True name uid s))"
    using assms
    by (auto simp: in_pantry_def pantry_lowercase_def ingredient_matches_def
          remove_ingredient_def delete_ingredient_def Let_def)
  have listed: "lower name \<notin> set (get_user_ingredients uid
                                        (snd (remove_ingredient True name uid s)))"
    by (auto simp: get_user_ingredients_def remove_ingredient_def delete_ingredient_def
          ingredient_matches_def Let_def)
  show ?thesis
    using gone listed by (auto simp: eq remove_ingredient_def delete_ingredient_def Let_def)
qed

lemma remove_ingredient_improved_always_404:
  "fst (remove_ingredient_improved db_up name uid s) = (Error ''Ingredient not found'', 404)"
  by (simp add: remove_ingredient_improved_def Ingredient_remove_ingredient_def truthy_def
        delete_ingredient_def Let_def)

text \<open>
  C5 fails in app_improved.py. User 1 has \<open>egg\<close> in the pantry; removing it deletes the
  row and answers 404. app.py answers the same request 200.
\<close>

theorem remove_ingredient_improved_present_404:
  "in_pantry 1 ''egg'' db_ann_egg
   \<and> remove_ingredient_improved True ''egg'' 1 db_ann_egg
     = ((Error ''Ingredient not found'', 404), db_ann_no_egg)
   \<and> remove_ingredient True ''egg'' 1 db_ann_egg
     = ((Message ''Ingredient removed successfully'', 200), db_ann_no_egg)"
  by code_simp

section \<open>Favorites: conflict on the same name, success on different names\<close>










section \<open>Recipe search: fallback and history\<close>

lemma split_nonempty: "split d s \<noteq> []"
  by (induction s) (auto split: list.splits)

lemma first_token_total: "\<exists>t. first_token s = Inr t"
  using split_nonempty[of "CHR '',''" s] by (auto simp: first_token_def split: list.splits)

lemma str_items_strings: "str_items (map JStr xs) = Inr xs"
  by (induction xs) auto

lemma py_join_tokens:
  "py_join sep (tokens n s) = Inr (join sep (map strip (take n (split CHR '','' s))))"
proof -
  have "map (\<lambda>ing. JStr (strip ing)) xs = map JStr (map strip xs)" for xs
    by simp
  then show ?thesis
    by (simp add: tokens_def str_items_strings del: map_map)
qed

lemma create_recipe_history:
  "search_history (snd (create_recipe db_up now a b c d e f st)) = search_history st"
  by (simp add: create_recipe_def insert_recipe_def split: option.splits)

lemma store_recipe_history:
  "store_recipe db_up now r st = Inr st' \<Longrightarrow> search_history st' = search_history st"
  by (auto simp: store_recipe_def create_recipe_history split: sum.splits)

lemma store_recipes_history:
  "search_history (snd (store_recipes db_up now rs st)) = search_history st"
proof (induction rs arbitrary: st)
  case Nil
  then show ?case by simp
next
  case (Cons r rs)
  then show ?case
    by (cases "store_recipe db_up now r st") (auto dest: store_recipe_history)
qed

lemma fallback_shape:
  "\<exists>r1 r2 r3. get_fallback_recipes s = Inr [r1, r2, r3]
      \<and> (\<forall>r \<in> {r1, r2, r3}. all_in required_fields r = Inr True \<and> has_required_fields r
            \<and> (\<forall>db_up now st. \<exists>st'. store_recipe db_up now r st = Inr st'))"
proof -
  obtain t where t: "first_token s = Inr t"
    using first_token_total by blast
  show ?thesis
    by (simp add: get_fallback_recipes_def t required_fields_def store_recipe_def
          py_join_tokens has_required_fields_def)
qed

lemma store_recipes_ok:
  "\<forall>r \<in> set rs. \<forall>st. \<exists>st'. store_recipe db_up now r st = Inr st'
     \<Longrightarrow> fst (store_recipes db_up now rs st) = None"
proof (induction rs arbitrary: st)
  case Nil
  then show ?case by simp
next
  case (Cons r rs)
  then obtain st' where "store_recipe db_up now r st = Inr st'"
    by (meson list.set_intros(1))
  with Cons show ?case by simp
qed

lemma generate_recipes_rejected:
  "rejected loads api \<Longrightarrow> generate_recipes loads api s = get_fallback_recipes s"
  by (auto simp: rejected_def generate_recipes_def
      split: api_outcome.splits option.splits json.splits sum.splits)

lemma generate_recipes_total: "\<exists>found. generate_recipes loads api s = Inr found"
proof -
  obtain fb where "get_fallback_recipes s = Inr fb"
    using fallback_shape[of s] by blast
  then show ?thesis
    by (auto simp: generate_recipes_def
        split: api_outcome.splits option.splits json.splits sum.splits)
qed

lemma fallback_response:
  assumes "strip ingredients \<noteq> []" and "rejected loads api"
  shows "\<exists>fb s'. search_recipes_improved loads api db_up now
                   (Some \<lparr>req_ingredients = Some ingredients\<rparr>) uid s
                 = ((Recipes fb 3 (strip ingredients), 200), s')
              \<and> get_fallback_recipes (strip ingredients) = Inr fb
              \<and> length fb = 3
              \<and> (\<forall>r \<in> set fb. has_required_fields r \<and> all_in required_fields r = Inr True)"
proof -
  obtain r1 r2 r3 where fb3: "get_fallback_recipes (strip ingredients) = Inr [r1, r2, r3]"
    and ok: "\<forall>r \<in> {r1, r2, r3}. all_in required_fields r = Inr True \<and> has_required_fields r
            \<and> (\<forall>db_up now st. \<exists>st'. store_recipe db_up now r st = Inr st')"
    using fallback_shape[of "strip ingredients"] by blast
  define fb where "fb = [r1, r2, r3]"
  have len: "length fb = 3" and fields:
    "\<forall>r \<in> set fb. has_required_fields r \<and> all_in required_fields r = Inr True"
    and storable: "\<forall>r \<in> set fb. \<forall>st. \<exists>st'. store_recipe db_up now r st = Inr st'"
    using ok by (auto simp: fb_def)
  have gen: "generate_recipes loads api (strip ingredients) = Inr fb"
    using generate_recipes_rejected[OF assms(2)] fb3 by (simp add: fb_def)
  obtain hid s1 where logged: "add_search db_up now uid (strip ingredients) 3 s = (hid, s1)"
    by (cases "add_search db_up now uid (strip ingredients) 3 s")
  obtain s2 where stored: "store_recipes db_up now fb s1 = (None, s2)"
    using store_recipes_ok[OF storable, of s1] by (cases "store_recipes db_up now fb s1") auto
  have "search_recipes_improved loads api db_up now
          (Some \<lparr>req_ingredients = Some ingredients\<rparr>) uid s
        = ((Recipes fb 3 (strip ingredients), 200), s2)"
    using assms(1) by (simp add: search_recipes_improved_def get_or_def gen len logged stored)
  then show ?thesis
    using fb3 len fields by (auto simp: fb_def)
qed




text \<open>
  C8 as stated fails. app_improved.py records the stripped string, not the submitted one
  (\<open>egg\<close> for \<open> egg\<close>), and records nothing for a string of one space; app.py records
  nothing when the API call raises.
\<close>

theorem search_logged_counterexample:
  "'' egg'' \<noteq> []
   \<and> map hist_ingredients
       (search_history
          (snd (search_recipes_improved never_parses ApiRaises True 100 (Some padded_egg_search)
                  1 db_ann)))
     = [''egg'']
   \<and> ''egg'' \<noteq> '' egg''
   \<and> search_history
       (snd (search_recipes_improved never_parses ApiRaises True 100 (Some blank_search) 1
               db_ann))
     = []
   \<and> search_history (snd (search_recipes ApiRaises True 100 (Some egg_search) 1 db_ann)) = []"
  by code_simp

text \<open>
  C8, amended. With the database reachable and an ingredient string that is not empty
  after stripping white space: the search of app_improved.py appends one row to the
  history, for that user, holding the stripped string and the number of recipes generated;
  that number is the \<open>total\<close> of the response when the answer is 200 (the only other
  answer is a 500 raised while the recipes are stored), and it is 3, with answer 200, when
  the fallback generator serves the search. The search of app.py, when the API call
  returns, appends one row holding the submitted string and the count 3 of the recipes it
  returns.
\<close>

theorem search_logs_history:
  assumes "strip ingredients \<noteq> []"
  shows "(\<exists>found.
            generate_recipes loads api (strip ingredients) = Inr found
            \<and> search_history
                (snd (search_recipes_improved loads api True now
                        (Some \<lparr>req_ingredients = Some ingredients\<rparr>) uid s))
              = search_history s @
                  [\<lparr>hist_id = next_history_id s, hist_user_id = uid,
                    hist_ingredients = strip ingredients, hist_recipes_found = length found,
                    hist_search_time = now\<rparr>]
            \<and> (fst (search_recipes_improved loads api True now
                       (Some \<lparr>req_ingredients = Some ingredients\<rparr>) uid s)
                  = (Recipes found (length found) (strip ingredients), 200)
                \<or> fst (search_recipes_improved loads api True now
                          (Some \<lparr>req_ingredients = Some ingredients\<rparr>) uid s)
                     = (Error ''Recipe search failed'', 500))
            \<and> (rejected loads api
                  \<longrightarrow> length found = 3
                      \<and> fst (search_recipes_improved loads api True now
                                (Some \<lparr>req_ingredients = Some ingredients\<rparr>) uid s)
                          = (Recipes found 3 (strip ingredients), 200)))
       \<and> search_recipes (ApiContent content) True now
            (Some \<lparr>req_ingredients = Some ingredients\<rparr>) uid s
         = ((Recipes sample_recipes 3 ingredients, 200),
            s\<lparr>search_history := search_history s @
                 [\<lparr>hist_id = next_history_id s, hist_user_id = uid,
                   hist_ingredients = ingredients, hist_recipes_found = 3,
                   hist_search_time = now\<rparr>],
              next_history_id := Suc (next_history_id s)\<rparr>)"
proof -
  let ?req = "Some \<lparr>req_ingredients = Some ingredients\<rparr>"
  let ?res = "search_recipes_improved loads api True now ?req uid s"
  obtain found where gen: "generate_recipes loads api (strip ingredients) = Inr found"
    using generate_recipes_total by blast
  let ?s1 = "snd (insert_history uid (strip ingredients) (length found) now s)"
  have logged: "add_search True now uid (strip ingredients) (length found) s
                  = (Some (next_history_id s), ?s1)"
    by (simp add: add_search_def insert_history_def)
  obtain e s2 where stored: "store_recipes True now found ?s1 = (e, s2)"
    by (cases "store_recipes True now found ?s1")
  have hist2: "search_history s2 = search_history ?s1"
    using store_recipes_history[of True now found ?s1] stored by simp
  have res: "?res = ((case e of None \<Rightarrow> (Recipes found (length found) (strip ingredients), 200)
                       | Some x \<Rightarrow> (Error ''Recipe search failed'', 500)), s2)"
    using assms
    by (simp add: search_recipes_improved_def get_or_def gen logged stored
          split: option.splits)
  have hist: "search_history (snd ?res) = search_history s @
                  [\<lparr>hist_id = next_history_id s, hist_user_id = uid,
                    hist_ingredients = strip ingredients, hist_recipes_found = length found,
                    hist_search_time = now\<rparr>]"
    by (simp add: res hist2 insert_history_def)
  have status: "fst ?res = (Recipes found (length found) (strip ingredients), 200)
                \<or> fst ?res = (Error ''Recipe search failed'', 500)"
    by (simp add: res split: option.splits)
  have fb: "length found = 3 \<and> fst ?res = (Recipes found 3 (strip ingredients), 200)"
    if "rejected loads api"
  proof -
    from fallback_response[OF assms that, of True now uid s]
    obtain fb s' where "?res = ((Recipes fb 3 (strip ingredients), 200), s')"
      and "get_fallback_recipes (strip ingredients) = Inr fb" and "length fb = 3"
      by blast
    moreover have "fb = found"
      using generate_recipes_rejected[OF that, of "strip ingredients"] gen calculation(2)
      by simp
    ultimately show ?thesis by simp
  qed
  have ne: "ingredients \<noteq> []"
    using assms by (auto simp: strip_def)
  have app: "search_recipes (ApiContent content) True now ?req uid s
         = ((Recipes sample_recipes 3 ingredients, 200),
            s\<lparr>search_history := search_history s @
                 [\<lparr>hist_id = next_history_id s, hist_user_id = uid,
                   hist_ingredients = ingredients, hist_recipes_found = 3,
                   hist_search_time = now\<rparr>],
              next_history_id := Suc (next_history_id s)\<rparr>)"
    using ne
    by (simp add: search_recipes_def get_or_def insert_history_def sample_recipes_def)
  show ?thesis
    using gen hist status fb app by blast
qed

text \<open>
  A search for \<open>egg, milk \<close> served by the fallback generator: app_improved.py records
  \<open>egg, milk\<close> with count 3; app.py records the string as submitted.
\<close>

theorem search_logs_history_witness:
  "strip ''egg, milk '' \<noteq> []
   \<and> rejected parses_to_incomplete (ApiContent ''[{}]'')
   \<and> generate_recipes parses_to_incomplete (ApiContent ''[{}]'') ''egg, milk''
     = Inr egg_milk_fallback
   \<and> search_history
       (snd (search_recipes_improved parses_to_incomplete (ApiContent ''[{}]'') True 100
               (Some egg_milk_search) 1 db_ann))
     = [\<lparr>hist_id = 1, hist_user_id = 1, hist_ingredients = ''egg, milk'',
         hist_recipes_found = 3, hist_search_time = 100\<rparr>]
   \<and> fst (search_recipes_improved parses_to_incomplete (ApiContent ''[{}]'') True 100
            (Some egg_milk_search) 1 db_ann)
     = (Recipes egg_milk_fallback 3 ''egg, milk'', 200)
   \<and> search_history (snd (search_recipes (ApiContent ''[{}]'') True 100 (Some egg_milk_search) 1
                            db_ann))
     = [\<lparr>hist_id = 1, hist_user_id = 1, hist_ingredients = ''egg, milk '',
         hist_recipes_found = 3, hist_search_time = 100\<rparr>]"
proof -
  have h: "strip ''egg, milk '' \<noteq> []"
    "rejected parses_to_incomplete (ApiContent ''[{}]'')"
    "generate_recipes parses_to_incomplete (ApiContent ''[{}]'') ''egg, milk''
       = Inr egg_milk_fallback"
    "strip ''egg, milk '' = ''egg, milk''" "length egg_milk_fallback = 3"
    "next_history_id db_ann = 1" "search_history db_ann = []"
    by code_simp+
  from search_logs_history[OF h(1), of parses_to_incomplete "ApiContent ''[{}]''" 100 1 db_ann
      "''[{}]''"]
  show ?thesis
    using h by (auto simp: egg_milk_search_def)
qed

end
